theory Spec2Isabelle
  imports Complex_Main
begin

section \<open>Geometry primitives (core.py)\<close>

text \<open>
  \<^verbatim>\<open>Size\<close> and \<^verbatim>\<open>Point\<close> are dataclasses of two Python integers each. Python
  integers are unbounded, so the components are of type \<open>int\<close>. The selectors carry the
  class name as a prefix (\<open>size_w\<close> for \<^verbatim>\<open>Size.w\<close>, \<open>point_x\<close> for \<^verbatim>\<open>Point.x\<close>).
\<close>

datatype Size = Size (size_w: int) (size_h: int)

datatype Point = Point (point_x: int) (point_y: int)

text \<open>\<^verbatim>\<open>Size.__add__\<close>\<close>

definition Size_add :: "Size \<Rightarrow> Size \<Rightarrow> Size" where
  "Size_add self other = Size (size_w self + size_w other) (size_h self + size_h other)"

text \<open>\<^verbatim>\<open>Point.__add__\<close>: a point plus a size.\<close>

definition Point_add :: "Point \<Rightarrow> Size \<Rightarrow> Point" where
  "Point_add self other = Point (point_x self + size_w other) (point_y self + size_h other)"

text \<open>
  \<^verbatim>\<open>Point.__sub__\<close> dispatches on the class of its argument. The branch for a
  \<^verbatim>\<open>Point\<close> argument returns \<^verbatim>\<open>Size(other.x - self.x, other.y - self.y)\<close>: the
  components of the right operand minus those of the left one.
\<close>

definition Point_sub_Point :: "Point \<Rightarrow> Point \<Rightarrow> Size" where
  "Point_sub_Point self other =
     Size (point_x other - point_x self) (point_y other - point_y self)"

text \<open>The branch for a \<^verbatim>\<open>Size\<close> argument: \<^verbatim>\<open>Point(self.x - other.w, self.y - other.h)\<close>.\<close>

definition Point_sub_Size :: "Point \<Rightarrow> Size \<Rightarrow> Point" where
  "Point_sub_Size self other =
     Point (point_x self - size_w other) (point_y self - size_h other)"

text \<open>
  \<^verbatim>\<open>Point.is_within\<close>: the chained comparisons
  \<^verbatim>\<open>top_left.x <= self.x <= bottom_right.x and top_left.y <= self.y <= bottom_right.y\<close>.
\<close>

definition is_within :: "Point \<Rightarrow> Point \<Rightarrow> Point \<Rightarrow> bool" where
  "is_within self top_left bottom_right =
     (point_x top_left \<le> point_x self \<and> point_x self \<le> point_x bottom_right \<and>
      point_y top_left \<le> point_y self \<and> point_y self \<le> point_y bottom_right)"

text \<open>
  The containment test in the specification's words, for comparison with \<open>is_within\<close>:
  inclusive bounds between the smaller and the larger coordinate of the two corners on
  each axis, whatever the order of the corners.
\<close>

definition is_within_spec :: "Point \<Rightarrow> Point \<Rightarrow> Point \<Rightarrow> bool" where
  "is_within_spec p c1 c2 =
     (min (point_x c1) (point_x c2) \<le> point_x p \<and> point_x p \<le> max (point_x c1) (point_x c2) \<and>
      min (point_y c1) (point_y c2) \<le> point_y p \<and> point_y p \<le> max (point_y c1) (point_y c2))"

text \<open>The glyphs of the \<^verbatim>\<open>Ascii\<close> enumeration.\<close>

datatype Ascii =
    H_LINE | V_LINE
  | TL_CORNER | TR_CORNER | BL_CORNER | BR_CORNER
  | ARROW_RIGHT | ARROW_LEFT | ARROW_UP | ARROW_DOWN

datatype CursorMode = HAND | MOVE


section \<open>Shapes (diagram.py)\<close>

text \<open>
  A diagram object is an instance of \<^verbatim>\<open>Box\<close>, of \<^verbatim>\<open>Line\<close> or of the base class
  \<^verbatim>\<open>DiagramObject\<close> itself (which \<^verbatim>\<open>Designer.deserialize\<close> can instantiate by name).
  \<open>klass\<close> is the class of the instance together with the fields the subclass adds:
  \<^verbatim>\<open>text\<close> and \<^verbatim>\<open>show_border\<close> for a box, \<^verbatim>\<open>orientation\<close> and \<^verbatim>\<open>is_arrow\<close> for a
  line. The orientation is kept as the integer it is stored as: \<^verbatim>\<open>Line.deserialize\<close>
  assigns whatever integer the record holds, and every use compares it with
  \<^verbatim>\<open>Orientation.HORIZONTAL\<close> (1) or \<^verbatim>\<open>Orientation.VERTICAL\<close> (2), which an
  \<^verbatim>\<open>IntEnum\<close> does by value.
\<close>

datatype klass =
    is_Box: Box (box_text: string) (show_border: bool)
  | is_Line: Line (orientation: int) (is_arrow: bool)
  | DiagramObject

record diagram_object =
  position :: Point
  size' :: Size
  klass :: klass

definition HORIZONTAL :: int where "HORIZONTAL = 1"
definition VERTICAL :: int where "VERTICAL = 2"

text \<open>The derived corner properties of \<^verbatim>\<open>DiagramObject\<close>.\<close>

definition normalized_position :: "diagram_object \<Rightarrow> Point" where
  "normalized_position self =
     (let x = point_x (position self);
          y = point_y (position self);
          x = (if size_w (size' self) < 0 then x + size_w (size' self) else x);
          y = (if size_h (size' self) < 0 then y + size_h (size' self) else y)
      in Point x y)"

definition normalized_size :: "diagram_object \<Rightarrow> Size" where
  "normalized_size self = Size \<bar>size_w (size' self)\<bar> \<bar>size_h (size' self)\<bar>"

definition top_left :: "diagram_object \<Rightarrow> Point" where
  "top_left self = position self"

definition normalized_top_left :: "diagram_object \<Rightarrow> Point" where
  "normalized_top_left self = normalized_position self"

definition top_right :: "diagram_object \<Rightarrow> Point" where
  "top_right self =
     Point (point_x (position self) + size_w (size' self)) (point_y (position self))"

definition normalized_top_right :: "diagram_object \<Rightarrow> Point" where
  "normalized_top_right self =
     Point (point_x (normalized_position self) + size_w (normalized_size self))
           (point_y (normalized_position self))"

definition bottom_left :: "diagram_object \<Rightarrow> Point" where
  "bottom_left self =
     Point (point_x (position self)) (point_y (position self) + size_h (size' self))"

definition normalized_bottom_left :: "diagram_object \<Rightarrow> Point" where
  "normalized_bottom_left self =
     Point (point_x (normalized_position self))
           (point_y (normalized_position self) + size_h (normalized_size self))"

definition bottom_right :: "diagram_object \<Rightarrow> Point" where
  "bottom_right self = Point_add (position self) (size' self)"

definition normalized_bottom_right :: "diagram_object \<Rightarrow> Point" where
  "normalized_bottom_right self = Point_add (normalized_position self) (normalized_size self)"


section \<open>Persistence records\<close>

text \<open>
  The exceptions the modelled code can raise. \<open>KeyError k\<close> is a failed subscript
  \<^verbatim>\<open>d[k]\<close>; \<open>TypeError\<close> is a call \<^verbatim>\<open>klass()\<close> of a module-level name that cannot
  be called without arguments; \<open>ValueError\<close> is the diagonal stroke refused by
  \<^verbatim>\<open>Line._draw_line\<close>; \<open>NotImplementedError\<close> is \<^verbatim>\<open>DiagramObject.draw\<close>;
  \<open>CursesError\<close> is \<^verbatim>\<open>curses.error\<close>.
\<close>

datatype error = KeyError string | TypeError | ValueError | NotImplementedError | CursesError

text \<open>
  A shape record, as \<^verbatim>\<open>json.load\<close> hands it to \<^verbatim>\<open>Designer.deserialize\<close>: a dictionary
  in which each of the keys the code reads may be absent (\<open>None\<close>). A value that is
  present has the JSON type \<^verbatim>\<open>serialize\<close> writes for its key; the nested dictionaries
  under \<^verbatim>\<open>"position"\<close> and \<^verbatim>\<open>"size"\<close> are maps from key to integer.
\<close>

record item =
  item_type :: "string option"
  item_position :: "(string \<rightharpoonup> int) option"
  item_size :: "(string \<rightharpoonup> int) option"
  item_text :: "string option"
  item_show_border :: "bool option"
  item_orientation :: "int option"
  item_is_arrow :: "bool option"

text \<open>The subscript \<^verbatim>\<open>d[k]\<close> on a value that may be absent under the key \<open>k\<close>.\<close>

definition getitem :: "'a option \<Rightarrow> string \<Rightarrow> error + 'a" where
  "getitem v k = (case v of None \<Rightarrow> Inl (KeyError k) | Some a \<Rightarrow> Inr a)"

text \<open>
  Sequencing of statements that may raise: the first exception ends the sequence.
\<close>

definition and_then :: "error + 'a \<Rightarrow> ('a \<Rightarrow> error + 'b) \<Rightarrow> error + 'b" where
  "and_then r f = (case r of Inl e \<Rightarrow> Inl e | Inr a \<Rightarrow> f a)"

text \<open>\<^verbatim>\<open>asdict\<close> of a point and of a size.\<close>

definition asdict_Point :: "Point \<Rightarrow> (string \<rightharpoonup> int)" where
  "asdict_Point p = [''x'' \<mapsto> point_x p, ''y'' \<mapsto> point_y p]"

definition asdict_Size :: "Size \<Rightarrow> (string \<rightharpoonup> int)" where
  "asdict_Size s = [''w'' \<mapsto> size_w s, ''h'' \<mapsto> size_h s]"

text \<open>\<^verbatim>\<open>type(self).__name__\<close>\<close>

definition type_name :: "klass \<Rightarrow> string" where
  "type_name k = (case k of Box t b \<Rightarrow> ''Box'' | Line ori a \<Rightarrow> ''Line''
                   | DiagramObject \<Rightarrow> ''DiagramObject'')"

text \<open>
  \<^verbatim>\<open>DiagramObject.serialize\<close>, extended by \<^verbatim>\<open>Box.serialize\<close> and \<^verbatim>\<open>Line.serialize\<close>
  (\<^verbatim>\<open>data.update\<close> adds the subclass's keys).
\<close>

definition DiagramObject_serialize :: "diagram_object \<Rightarrow> item" where
  "DiagramObject_serialize self =
     \<lparr> item_type = Some (type_name (klass self)),
       item_position = Some (asdict_Point (position self)),
       item_size = Some (asdict_Size (size' self)),
       item_text = None, item_show_border = None,
       item_orientation = None, item_is_arrow = None \<rparr>"

definition serialize :: "diagram_object \<Rightarrow> item" where
  "serialize self =
     (let data = DiagramObject_serialize self in
      case klass self of
        Box t b \<Rightarrow> data\<lparr>item_text := Some t, item_show_border := Some b\<rparr>
      | Line ori a \<Rightarrow> data\<lparr>item_orientation := Some ori, item_is_arrow := Some a\<rparr>
      | DiagramObject \<Rightarrow> data)"

text \<open>
  \<^verbatim>\<open>DiagramObject.deserialize\<close> assigns the four coordinates in the order
  \<^verbatim>\<open>position.x\<close>, \<^verbatim>\<open>position.y\<close>, \<^verbatim>\<open>size.w\<close>, \<^verbatim>\<open>size.h\<close>; the first failing
  subscript raises. The object under construction is dropped when a subscript raises,
  so the result is either the exception or the object with all four assigned.
\<close>

definition DiagramObject_deserialize :: "diagram_object \<Rightarrow> item \<Rightarrow> error + diagram_object" where
  "DiagramObject_deserialize self data =
     and_then (getitem (item_position data) ''position'') (\<lambda>pos.
     and_then (getitem (pos ''x'') ''x'') (\<lambda>x.
     and_then (getitem (item_position data) ''position'') (\<lambda>pos.
     and_then (getitem (pos ''y'') ''y'') (\<lambda>y.
     and_then (getitem (item_size data) ''size'') (\<lambda>sz.
     and_then (getitem (sz ''w'') ''w'') (\<lambda>w.
     and_then (getitem (item_size data) ''size'') (\<lambda>sz.
     and_then (getitem (sz ''h'') ''h'') (\<lambda>h.
     Inr (self\<lparr>position := Point x y, size' := Size w h\<rparr>)))))))))"

text \<open>
  \<^verbatim>\<open>obj.deserialize(data)\<close>, dispatched on the class of \<open>obj\<close>: \<^verbatim>\<open>Box.deserialize\<close>
  and \<^verbatim>\<open>Line.deserialize\<close> call the base method first and then assign their own two
  fields.
\<close>

definition deserialize :: "diagram_object \<Rightarrow> item \<Rightarrow> error + diagram_object" where
  "deserialize self data =
     (case klass self of
        Box t0 b0 \<Rightarrow>
          and_then (DiagramObject_deserialize self data) (\<lambda>self1.
          and_then (getitem (item_text data) ''text'') (\<lambda>t.
          and_then (getitem (item_show_border data) ''show_border'') (\<lambda>b.
          Inr (self1\<lparr>klass := Box t b\<rparr>))))
      | Line ori0 a0 \<Rightarrow>
          and_then (DiagramObject_deserialize self data) (\<lambda>self1.
          and_then (getitem (item_orientation data) ''orientation'') (\<lambda>ori.
          and_then (getitem (item_is_arrow data) ''is_arrow'') (\<lambda>a.
          Inr (self1\<lparr>klass := Line ori a\<rparr>))))
      | DiagramObject \<Rightarrow> DiagramObject_deserialize self data)"

text \<open>
  The constructors with their default arguments: \<^verbatim>\<open>DiagramObject()\<close>, \<^verbatim>\<open>Box()\<close> and
  \<^verbatim>\<open>Line()\<close> start at \<^verbatim>\<open>Point(0, 0)\<close> with \<^verbatim>\<open>Size(6, 3)\<close>.
\<close>

definition new_DiagramObject :: diagram_object where
  "new_DiagramObject = \<lparr> position = Point 0 0, size' = Size 6 3, klass = DiagramObject \<rparr>"

definition new_Box :: diagram_object where
  "new_Box = \<lparr> position = Point 0 0, size' = Size 6 3, klass = Box [] True \<rparr>"

definition new_Line :: diagram_object where
  "new_Line = \<lparr> position = Point 0 0, size' = Size 6 3, klass = Line HORIZONTAL False \<rparr>"

text \<open>
  \<^verbatim>\<open>globals()\<close> of the module \<^verbatim>\<open>diagram\<close>: the names it imports and defines, and the
  names every module has. Three of them are classes that can be called without
  arguments and have a \<^verbatim>\<open>deserialize\<close> method; a call of any other one without
  arguments raises \<^verbatim>\<open>TypeError\<close>.
\<close>

definition other_globals :: "string list" where
  "other_globals =
     [''copy'', ''curses'', ''json'', ''math'', ''os'', ''Textbox'', ''asdict'', ''IntEnum'',
      ''Any'', ''Callable'', ''Dict'', ''Iterable'', ''List'', ''Optional'', ''Tuple'', ''cast'',
      ''Ascii'', ''Canvas'', ''CursorMode'', ''Point'', ''Size'', ''StatusBar'', ''Designer'',
      ''__name__'', ''__doc__'', ''__package__'', ''__loader__'', ''__spec__'', ''__file__'',
      ''__cached__'', ''__builtins__'']"

text \<open>
  The body of the loop of \<^verbatim>\<open>Designer.deserialize\<close> up to the \<^verbatim>\<open>append\<close>:
  \<^verbatim>\<open>type_name = item["type"]; klass = globals()[type_name]; obj = klass(); obj.deserialize(item)\<close>.
\<close>

definition new_object :: "item \<Rightarrow> error + diagram_object" where
  "new_object it =
     and_then (getitem (item_type it) ''type'') (\<lambda>name.
       if name = ''Box'' then deserialize new_Box it
       else if name = ''Line'' then deserialize new_Line it
       else if name = ''DiagramObject'' then deserialize new_DiagramObject it
       else if name \<in> set other_globals then Inl TypeError
       else Inl (KeyError name))"


section \<open>The canvas (core.py)\<close>

text \<open>
  The curses window behind \<^verbatim>\<open>Canvas\<close> is a grid of \<open>max_x\<close> columns and \<open>max_y\<close> rows.
  A cell holds one of the glyphs of \<^verbatim>\<open>Ascii\<close> or an ordinary character.
\<close>

datatype ch = Glyph Ascii | Chr char

record Canvas =
  max_x :: int
  max_y :: int
  cells :: "Point \<Rightarrow> ch"

definition getmaxxy :: "Canvas \<Rightarrow> int \<times> int" where
  "getmaxxy cv = (max_x cv, max_y cv)"

text \<open>\<^verbatim>\<open>Canvas.clear\<close>: every cell of the window becomes a blank.\<close>

definition clear :: "Canvas \<Rightarrow> Canvas" where
  "clear cv = cv\<lparr>cells := (\<lambda>p. Chr CHR '' '')\<rparr>"

text \<open>
  \<^verbatim>\<open>Canvas.put_ch\<close>: \<^verbatim>\<open>addch\<close> writes the character into a cell of the window; outside
  the window it raises \<^verbatim>\<open>curses.error\<close>, which \<^verbatim>\<open>put_ch\<close> swallows. Colours are left
  out of the model.
\<close>

definition in_window :: "Canvas \<Rightarrow> Point \<Rightarrow> bool" where
  "in_window cv point =
     (0 \<le> point_x point \<and> point_x point < max_x cv \<and>
      0 \<le> point_y point \<and> point_y point < max_y cv)"

definition put_ch :: "Canvas \<Rightarrow> Point \<Rightarrow> ch \<Rightarrow> Canvas" where
  "put_ch cv point c =
     (if in_window cv point then cv\<lparr>cells := (cells cv)(point := c)\<rparr> else cv)"

text \<open>
  \<^verbatim>\<open>addstr\<close> of the curses library, for characters that take one cell each: the
  string is written cell by cell from the given position, continues on the next row at
  the right margin, and raises \<^verbatim>\<open>curses.error\<close> once the cursor cannot advance past
  the last cell of the window.
\<close>

fun addstr :: "Canvas \<Rightarrow> int \<Rightarrow> int \<Rightarrow> string \<Rightarrow> error + Canvas" where
  "addstr cv y x [] = Inr cv"
| "addstr cv y x (c # cs) =
     (let cv1 = cv\<lparr>cells := (cells cv)(Point x y := Chr c)\<rparr>
      in if x + 1 < max_x cv then addstr cv1 y (x + 1) cs
         else if y + 1 < max_y cv then addstr cv1 (y + 1) 0 cs
         else Inl CursesError)"

text \<open>\<^verbatim>\<open>Canvas.put_str\<close>: nothing is written when the start lies outside the window.\<close>

definition put_str :: "Canvas \<Rightarrow> Point \<Rightarrow> string \<Rightarrow> error + Canvas" where
  "put_str cv point txt =
     (let (max_x, max_y) = getmaxxy cv
      in if 0 \<le> point_x point \<and> point_x point < max_x \<and>
            0 \<le> point_y point \<and> point_y point < max_y
         then addstr cv (point_y point) (point_x point) txt
         else Inr cv)"

text \<open>
  \<^verbatim>\<open>Canvas.fill\<close>: the corners are put in order on each axis, then the rows
  \<^verbatim>\<open>range(sy, ey + 1)\<close> and in each the columns \<^verbatim>\<open>range(sx, ex + 1)\<close> are written.
\<close>

definition fill :: "Canvas \<Rightarrow> Point \<Rightarrow> Point \<Rightarrow> ch \<Rightarrow> Canvas" where
  "fill cv start end c =
     (let (sx, sy) = (point_x start, point_y start);
          (ex, ey) = (point_x end, point_y end);
          (sx, ex) = (if sx > ex then (ex, sx) else (sx, ex));
          (sy, ey) = (if sy > ey then (ey, sy) else (sy, ey))
      in fold (\<lambda>y cv. fold (\<lambda>x cv. put_ch cv (Point x y) c) [sx..ex] cv) [sy..ey] cv)"


section \<open>Drawing (diagram.py)\<close>

text \<open>
  Python's slice \<^verbatim>\<open>xs[:n]\<close>: the first \<open>n\<close> elements, or all but the last \<open>-n\<close> when
  \<open>n\<close> is negative.
\<close>

definition slice_to :: "int \<Rightarrow> 'a list \<Rightarrow> 'a list" where
  "slice_to n xs = (if 0 \<le> n then take (nat n) xs else take (length xs - nat (- n)) xs)"

text \<open>\<^verbatim>\<open>text.split("\n")\<close>: the pieces between line feeds, at least one.\<close>

fun split_lines :: "string \<Rightarrow> string list" where
  "split_lines [] = [] # []"
| "split_lines (c # cs) =
     (if c = CHR 0x0A then [] # split_lines cs
      else (case split_lines cs of l # ls \<Rightarrow> (c # l) # ls | [] \<Rightarrow> [c] # []))"

text \<open>
  \<^verbatim>\<open>str.strip()\<close> removes white space at both ends. Among the characters of one byte,
  \<^verbatim>\<open>str.isspace\<close> holds for the codes 9 to 13, 28 to 32, 133 and 160.
\<close>

definition isspace :: "char \<Rightarrow> bool" where
  "isspace c = (of_char c \<in> set [9, 10, 11, 12, 13, 28, 29, 30, 31, 32, 133, 160 :: nat])"

definition strip :: "string \<Rightarrow> string" where
  "strip s = rev (dropWhile isspace (rev (dropWhile isspace s)))"

text \<open>
  The loop of \<^verbatim>\<open>Box.draw\<close> over \<^verbatim>\<open>enumerate(lines)\<close>: line \<open>i\<close> is cut to
  \<^verbatim>\<open>size.w - 1\<close> characters and written at \<^verbatim>\<open>top_left + Size(1, i + 1)\<close>.
\<close>

fun put_lines :: "diagram_object \<Rightarrow> Canvas \<Rightarrow> int \<Rightarrow> string list \<Rightarrow> error + Canvas" where
  "put_lines self cv i [] = Inr cv"
| "put_lines self cv i (line # lines) =
     and_then
       (put_str cv (Point_add (top_left self) (Size 1 (i + 1)))
          (slice_to (size_w (size' self) - 1) line))
       (\<lambda>cv1. put_lines self cv1 (i + 1) lines)"

text \<open>
  \<^verbatim>\<open>Box.draw\<close>: with a border, the four edges are stroked between the corners as
  positioned (not normalized) and the corner glyphs are put at the normalized corners;
  then the rectangle from \<^verbatim>\<open>top_left + Size(1, 1)\<close> to \<^verbatim>\<open>bottom_right - Size(1, 1)\<close>
  is filled with blanks; then the text is written.
\<close>

definition Box_draw :: "diagram_object \<Rightarrow> Canvas \<Rightarrow> error + Canvas" where
  "Box_draw self canvas =
     (let cv1 =
            (if show_border (klass self) then
               (let c1 = fill canvas (top_left self) (top_right self) (Glyph H_LINE);
                    c2 = fill c1 (bottom_left self) (bottom_right self) (Glyph H_LINE);
                    c3 = fill c2 (top_right self) (bottom_right self) (Glyph V_LINE);
                    c4 = fill c3 (top_left self) (bottom_left self) (Glyph V_LINE)
                in fold (\<lambda>(point, char) cv. put_ch cv point (Glyph char))
                     [(normalized_top_left self, TL_CORNER),
                      (normalized_top_right self, TR_CORNER),
                      (normalized_bottom_left self, BL_CORNER),
                      (normalized_bottom_right self, BR_CORNER)] c4)
             else canvas);
          cv2 = fill cv1 (Point_add (top_left self) (Size 1 1))
                  (Point_sub_Size (bottom_right self) (Size 1 1)) (Chr CHR '' '');
          txt = box_text (klass self);
          txt = (if \<not> show_border (klass self) \<and> strip txt = [] then ''[Text]'' else txt)
      in put_lines self cv2 0 (slice_to (size_h (size' self) - 1) (split_lines txt)))"

text \<open>
  \<^verbatim>\<open>math.atan2(y, x)\<close> on real numbers, with the value \<open>0\<close> at the origin that the
  library gives for two positive zeros. \<^verbatim>\<open>Line._draw_line\<close> calls it with one argument
  zero and the other not; there the floating-point results are \<open>0\<close>, the double nearest
  \<open>\<pi>\<close> and the halves of the latter, the quotient by \<^verbatim>\<open>math.pi\<close> is exactly \<open>0\<close>, \<open>1\<close>
  or \<open>\<plusminus>1/2\<close>, and the degree is exactly \<open>0\<close>, \<open>180\<close> or \<open>\<plusminus>90\<close>, as over the reals.
\<close>

definition atan2 :: "real \<Rightarrow> real \<Rightarrow> real" where
  "atan2 y x =
     (if 0 < x then arctan (y / x)
      else if x < 0 then (if 0 \<le> y then arctan (y / x) + pi else arctan (y / x) - pi)
      else if 0 < y then pi / 2
      else if y < 0 then - (pi / 2)
      else 0)"

text \<open>\<^verbatim>\<open>int(degree)\<close> on a float: truncation towards zero.\<close>

definition py_int :: "real \<Rightarrow> int" where
  "py_int r = (if 0 \<le> r then \<lfloor>r\<rfloor> else \<lceil>r\<rceil>)"

text \<open>The class attribute \<^verbatim>\<open>Line.degree_to_ch\<close>.\<close>

definition degree_to_ch :: "int \<rightharpoonup> Ascii" where
  "degree_to_ch = [0 \<mapsto> ARROW_DOWN, 180 \<mapsto> ARROW_UP, 90 \<mapsto> ARROW_RIGHT, -90 \<mapsto> ARROW_LEFT]"

text \<open>
  The degree \<^verbatim>\<open>math.atan2(delta.w, delta.h) / math.pi * 180\<close> of a size \<open>delta\<close>.
\<close>

definition degree_of :: "Size \<Rightarrow> real" where
  "degree_of delta = atan2 (real_of_int (size_w delta)) (real_of_int (size_h delta)) / pi * 180"

text \<open>\<^verbatim>\<open>Line._get_corner_ch\<close>, the two tables keyed by \<open>(x_forward, y_downwards)\<close>.\<close>

definition get_corner_ch :: "diagram_object \<Rightarrow> Point \<Rightarrow> Point \<Rightarrow> Ascii" where
  "get_corner_ch self start end =
     (let x_forward = (point_x start \<le> point_x end);
          y_downwards = (point_y start \<le> point_y end)
      in if orientation (klass self) = HORIZONTAL then
           (if x_forward then (if y_downwards then TR_CORNER else BR_CORNER)
            else (if y_downwards then TL_CORNER else BL_CORNER))
         else
           (if x_forward then (if y_downwards then BL_CORNER else TL_CORNER)
            else (if y_downwards then BR_CORNER else TR_CORNER)))"

text \<open>
  \<^verbatim>\<open>Line._draw_line\<close>: a diagonal raises, a leg of no length draws nothing, any other
  leg is stroked and, for an arrow, its end is overwritten with the glyph found in
  \<^verbatim>\<open>degree_to_ch\<close> under the truncated degree of \<^verbatim>\<open>delta = start - end\<close>.
\<close>

definition draw_line :: "diagram_object \<Rightarrow> Canvas \<Rightarrow> Point \<Rightarrow> Point \<Rightarrow> error + Canvas" where
  "draw_line self canvas start end =
     (if point_x start \<noteq> point_x end \<and> point_y start \<noteq> point_y end then Inl ValueError
      else if start = end then Inr canvas
      else
        (let direction = (if point_x start = point_x end then V_LINE else H_LINE);
             cv1 = fill canvas start end (Glyph direction)
         in if is_arrow (klass self) then
              (let delta = Point_sub_Point start end;
                   degree = degree_of delta
               in and_then (getitem (degree_to_ch (py_int degree)) ''degree'')
                    (\<lambda>arrow_end_ch. Inr (put_ch cv1 end (Glyph arrow_end_ch))))
            else Inr cv1))"

text \<open>\<^verbatim>\<open>Line._draw_horizontal\<close> and \<^verbatim>\<open>Line._draw_vertical\<close>\<close>

definition draw_horizontal :: "diagram_object \<Rightarrow> Canvas \<Rightarrow> error + Canvas" where
  "draw_horizontal self canvas =
     (if point_y (top_left self) = point_y (bottom_right self)
      then draw_line self canvas (top_left self) (top_right self)
      else
        and_then
          (draw_line self (fill canvas (top_left self) (top_right self) (Glyph H_LINE))
             (top_right self) (bottom_right self))
          (\<lambda>cv1. if point_x (top_left self) \<noteq> point_x (bottom_right self)
                  then Inr (put_ch cv1 (top_right self)
                              (Glyph (get_corner_ch self (top_left self) (bottom_right self))))
                  else Inr cv1))"

definition draw_vertical :: "diagram_object \<Rightarrow> Canvas \<Rightarrow> error + Canvas" where
  "draw_vertical self canvas =
     (if point_x (top_left self) = point_x (bottom_right self)
      then draw_line self canvas (top_left self) (bottom_left self)
      else
        and_then
          (draw_line self (fill canvas (top_left self) (bottom_left self) (Glyph V_LINE))
             (bottom_left self) (bottom_right self))
          (\<lambda>cv1. if point_y (top_left self) \<noteq> point_y (bottom_right self)
                  then Inr (put_ch cv1 (bottom_left self)
                              (Glyph (get_corner_ch self (top_left self) (bottom_right self))))
                  else Inr cv1))"

text \<open>\<^verbatim>\<open>Line.draw\<close>\<close>

definition Line_draw :: "diagram_object \<Rightarrow> Canvas \<Rightarrow> error + Canvas" where
  "Line_draw self canvas =
     (if orientation (klass self) = HORIZONTAL then draw_horizontal self canvas
      else draw_vertical self canvas)"

text \<open>\<^verbatim>\<open>obj.draw(canvas)\<close>, dispatched on the class; the base class raises.\<close>

definition draw :: "diagram_object \<Rightarrow> Canvas \<Rightarrow> error + Canvas" where
  "draw self canvas =
     (case klass self of
        Box t b \<Rightarrow> Box_draw self canvas
      | Line ori a \<Rightarrow> Line_draw self canvas
      | DiagramObject \<Rightarrow> Inl NotImplementedError)"

text \<open>
  The arrowhead in the specification's words, for comparison with \<open>draw_line\<close>: the
  glyph of the table under the angle of the vector from the leg's end back to its
  start, that is, of the start's coordinates minus the end's.
\<close>

definition arrowhead_spec :: "Point \<Rightarrow> Point \<Rightarrow> Ascii option" where
  "arrowhead_spec start end =
     degree_to_ch (py_int (degree_of
       (Size (point_x start - point_x end) (point_y start - point_y end))))"


section \<open>The editor controller (diagram.py, class Designer)\<close>

record Designer =
  objects :: "diagram_object list"
  selected_object_index :: int
  cursor :: Point
  cursor_mode :: CursorMode
  sticky_mode :: bool
  canvas :: Canvas

text \<open>The state \<^verbatim>\<open>Designer.__init__\<close> builds around a canvas.\<close>

definition Designer_init :: "Canvas \<Rightarrow> Designer" where
  "Designer_init cv =
     \<lparr> objects = [], selected_object_index = -1, cursor = Point 0 0,
       cursor_mode = HAND, sticky_mode = True, canvas = cv \<rparr>"

text \<open>The property \<^verbatim>\<open>selected_object\<close>: the object at the index, or \<^verbatim>\<open>None\<close>.\<close>

definition selected_object :: "Designer \<Rightarrow> diagram_object option" where
  "selected_object self =
     (if 0 \<le> selected_object_index self \<and>
         selected_object_index self < int (length (objects self))
      then Some (objects self ! nat (selected_object_index self)) else None)"

text \<open>
  \<^verbatim>\<open>_find_lines\<close> yields the lines of the collection in order. The model names an
  object of the collection by its index, since the code mutates the objects it
  yields in place.
\<close>

definition find_lines :: "Designer \<Rightarrow> nat list" where
  "find_lines self = filter (\<lambda>i. is_Line (klass (objects self ! i))) [0..<length (objects self)]"

text \<open>
  \<^verbatim>\<open>_get_connected_lines\<close>: nothing when no object is selected or the selected object
  is a line; otherwise each line is tested against the rectangle from
  \<^verbatim>\<open>box.top_left - Size(1, 1)\<close> to \<^verbatim>\<open>box.bottom_right + Size(1, 1)\<close>, its start first
  (\<^verbatim>\<open>if is_start_connected ... elif is_end_connected\<close>).
\<close>

definition get_connected_lines :: "Designer \<Rightarrow> nat list \<times> nat list" where
  "get_connected_lines self =
     (case selected_object self of
        None \<Rightarrow> ([], [])
      | Some box \<Rightarrow>
          if \<not> is_Line (klass box) then
            fold (\<lambda>i (starting_connected_lines, ending_connected_lines).
                    let arrow = objects self ! i;
                        is_start_connected =
                          is_within (top_left arrow)
                            (Point_sub_Size (top_left box) (Size 1 1))
                            (Point_add (bottom_right box) (Size 1 1));
                        is_end_connected =
                          is_within (bottom_right arrow)
                            (Point_sub_Size (top_left box) (Size 1 1))
                            (Point_add (bottom_right box) (Size 1 1))
                    in if is_start_connected
                       then (starting_connected_lines @ [i], ending_connected_lines)
                       else if is_end_connected
                       then (starting_connected_lines, ending_connected_lines @ [i])
                       else (starting_connected_lines, ending_connected_lines))
                 (find_lines self) ([], [])
          else ([], []))"

text \<open>The in-place updates of \<^verbatim>\<open>_on_cursor_move\<close> on one object.\<close>

definition move_position :: "int \<Rightarrow> int \<Rightarrow> diagram_object \<Rightarrow> diagram_object" where
  "move_position dx dy obj =
     obj\<lparr>position := Point (point_x (position obj) + dx) (point_y (position obj) + dy)\<rparr>"

definition move_start :: "int \<Rightarrow> int \<Rightarrow> diagram_object \<Rightarrow> diagram_object" where
  "move_start dx dy arrow =
     arrow\<lparr>position := Point (point_x (position arrow) + dx) (point_y (position arrow) + dy),
            size' := Size (size_w (size' arrow) - dx) (size_h (size' arrow) - dy)\<rparr>"

definition move_end :: "int \<Rightarrow> int \<Rightarrow> diagram_object \<Rightarrow> diagram_object" where
  "move_end dx dy arrow =
     arrow\<lparr>size' := Size (size_w (size' arrow) + dx) (size_h (size' arrow) + dy)\<rparr>"

text \<open>A \<^verbatim>\<open>for\<close> loop that mutates the listed objects of the collection in turn.\<close>

definition update_each :: "(diagram_object \<Rightarrow> diagram_object) \<Rightarrow> nat list \<Rightarrow>
    diagram_object list \<Rightarrow> diagram_object list" where
  "update_each f idxs objs = fold (\<lambda>i os. os[i := f (os ! i)]) idxs objs"

text \<open>
  \<^verbatim>\<open>_on_cursor_move\<close>. The connected lines are computed before anything moves, and
  only in sticky mode. With an object selected, it moves and, in sticky mode, the
  connected lines follow; with none, the free cursor moves inside the canvas.
\<close>

definition on_cursor_move :: "Designer \<Rightarrow> int \<Rightarrow> int \<Rightarrow> Designer" where
  "on_cursor_move self dx dy =
     (let (starting_connected_arrows, ending_connected_arrows) =
            (if sticky_mode self then get_connected_lines self else ([], []));
          (max_x, max_y) = getmaxxy (canvas self)
      in case selected_object self of
           Some obj \<Rightarrow>
             (let objs1 = (objects self)[nat (selected_object_index self) := move_position dx dy obj]
              in if sticky_mode self
                 then self\<lparr>objects :=
                        update_each (move_end dx dy) ending_connected_arrows
                          (update_each (move_start dx dy) starting_connected_arrows objs1)\<rparr>
                 else self\<lparr>objects := objs1\<rparr>)
         | None \<Rightarrow>
             (let x = (if 0 \<le> point_x (cursor self) + dx \<and> point_x (cursor self) + dx < max_x
                       then point_x (cursor self) + dx else point_x (cursor self));
                  y = (if 0 \<le> point_y (cursor self) + dy \<and> point_y (cursor self) + dy < max_y
                       then point_y (cursor self) + dy else point_y (cursor self))
              in self\<lparr>cursor := Point x y\<rparr>))"

text \<open>\<^verbatim>\<open>_on_cursor_move_resize\<close>\<close>

definition on_cursor_move_resize :: "Designer \<Rightarrow> int \<Rightarrow> int \<Rightarrow> Designer" where
  "on_cursor_move_resize self dx dy =
     (case selected_object self of
        Some obj \<Rightarrow>
          self\<lparr>objects := (objects self)[nat (selected_object_index self) := move_end dx dy obj]\<rparr>
      | None \<Rightarrow> self)"

text \<open>\<^verbatim>\<open>_on_switch_object\<close>\<close>

definition on_switch_object :: "Designer \<Rightarrow> bool \<Rightarrow> Designer" where
  "on_switch_object self reverse =
     (if reverse then
        (let self1 = (if selected_object_index self = -1
                      then self\<lparr>selected_object_index := int (length (objects self)) - 1\<rparr>
                      else self\<lparr>selected_object_index := selected_object_index self - 1\<rparr>)
         in self1\<lparr>cursor_mode := (if selected_object_index self1 < 0 then HAND else MOVE)\<rparr>)
      else
        (let self1 = self\<lparr>selected_object_index := selected_object_index self + 1\<rparr>
         in if selected_object_index self1 \<ge> int (length (objects self1))
            then self1\<lparr>selected_object_index := -1, cursor_mode := HAND\<rparr>
            else self1\<lparr>cursor_mode := MOVE\<rparr>))"

text \<open>\<^verbatim>\<open>_get_new_obj_position\<close>; \<^verbatim>\<open>//\<close> is floor division, as \<open>div\<close> on \<open>int\<close> is.\<close>

definition get_new_obj_position :: "Designer \<Rightarrow> int \<Rightarrow> Point" where
  "get_new_obj_position self new_obj_width =
     (case selected_object self of
        Some obj \<Rightarrow>
          if is_Line (klass obj) then
            (let size = (if orientation (klass obj) = HORIZONTAL
                         then Size (- (new_obj_width div 2)) 1
                         else Size 1 (size_h (size' obj) div 2))
             in Point_add (bottom_right obj) size)
          else Point_add (top_right obj) (Size 1 (size_h (size' obj) div 2))
      | None \<Rightarrow> cursor self)"

text \<open>The commands \<^verbatim>\<open>_add_box\<close>, \<^verbatim>\<open>_add_arrow\<close>, \<^verbatim>\<open>_add_line\<close>.\<close>

definition append_and_select :: "Designer \<Rightarrow> diagram_object \<Rightarrow> Designer" where
  "append_and_select self obj =
     (let self1 = self\<lparr>objects := objects self @ [obj]\<rparr>
      in self1\<lparr>selected_object_index := int (length (objects self1)) - 1\<rparr>)"

definition add_box :: "Designer \<Rightarrow> Designer" where
  "add_box self =
     append_and_select self
       \<lparr> position = get_new_obj_position self 14, size' = Size 14 2, klass = Box [] True \<rparr>"

definition add_arrow :: "Designer \<Rightarrow> Designer" where
  "add_arrow self =
     append_and_select self
       \<lparr> position = get_new_obj_position self 0, size' = Size 6 3,
         klass = Line HORIZONTAL True \<rparr>"

definition add_line :: "Designer \<Rightarrow> Designer" where
  "add_line self =
     append_and_select self
       \<lparr> position = get_new_obj_position self 0, size' = Size 6 3,
         klass = Line HORIZONTAL False \<rparr>"

text \<open>\<^verbatim>\<open>_delete_cur_object\<close>: \<^verbatim>\<open>pop\<close> of the selected index, then the index minus one.\<close>

definition delete_cur_object :: "Designer \<Rightarrow> Designer" where
  "delete_cur_object self =
     (if 0 \<le> selected_object_index self \<and>
         selected_object_index self < int (length (objects self))
      then self\<lparr>objects := take (nat (selected_object_index self)) (objects self) @
                             drop (nat (selected_object_index self) + 1) (objects self),
                selected_object_index := selected_object_index self - 1\<rparr>
      else self)"

definition unselect_cur_object :: "Designer \<Rightarrow> Designer" where
  "unselect_cur_object self = self\<lparr>selected_object_index := -1\<rparr>"

text \<open>
  \<^verbatim>\<open>_select_or_edit_object_under_cursor\<close>. With no object selected, the loop over
  \<^verbatim>\<open>enumerate(self.objects)\<close> assigns the index at every object whose rectangle holds
  the cursor. With one selected, an object that has an \<^verbatim>\<open>edit\<close> method (a box) is
  edited: \<^verbatim>\<open>Box.edit\<close> runs a text box on the screen and stores what it returns in
  \<^verbatim>\<open>text\<close>. The interactive session is outside the model; \<open>edited\<close> is its result.
\<close>

definition select_or_edit_object_under_cursor :: "Designer \<Rightarrow> string \<Rightarrow> Designer" where
  "select_or_edit_object_under_cursor self edited =
     (case selected_object self of
        None \<Rightarrow>
          fold (\<lambda>i s. if is_within (cursor s) (top_left (objects s ! i)) (bottom_right (objects s ! i))
                      then s\<lparr>selected_object_index := int i\<rparr> else s)
               [0..<length (objects self)] self
      | Some obj \<Rightarrow>
          (case klass obj of
             Box t b \<Rightarrow>
               self\<lparr>objects := (objects self)[nat (selected_object_index self) :=
                                  obj\<lparr>klass := Box edited b\<rparr>]\<rparr>
           | _ \<Rightarrow> self))"

text \<open>\<^verbatim>\<open>Box.toggle\<close> and \<^verbatim>\<open>Line.toggle\<close>; the base class has no \<^verbatim>\<open>toggle\<close>.\<close>

definition toggle :: "diagram_object \<Rightarrow> diagram_object" where
  "toggle self =
     (case klass self of
        Box t b \<Rightarrow> self\<lparr>klass := Box t (\<not> b)\<rparr>
      | Line ori a \<Rightarrow> self\<lparr>klass := Line (if ori = VERTICAL then HORIZONTAL else VERTICAL) a\<rparr>
      | DiagramObject \<Rightarrow> self)"

definition toggle_object :: "Designer \<Rightarrow> Designer" where
  "toggle_object self =
     (case selected_object self of
        Some obj \<Rightarrow> self\<lparr>objects := (objects self)[nat (selected_object_index self) := toggle obj]\<rparr>
      | None \<Rightarrow> self)"

definition toggle_sticky_mode :: "Designer \<Rightarrow> Designer" where
  "toggle_sticky_mode self = self\<lparr>sticky_mode := \<not> sticky_mode self\<rparr>"

text \<open>
  \<^verbatim>\<open>Designer.deserialize\<close>: the selection is reset and the collection emptied first;
  then each record is decoded and appended in turn. An exception leaves the loop, and
  the method, at the record that raised it; the result is the controller as it stands
  then, with the exception if there was one.
\<close>

fun deserialize_loop :: "diagram_object list \<Rightarrow> item list \<Rightarrow> diagram_object list \<times> error option" where
  "deserialize_loop objs [] = (objs, None)"
| "deserialize_loop objs (it # items) =
     (case new_object it of
        Inl e \<Rightarrow> (objs, Some e)
      | Inr obj \<Rightarrow> deserialize_loop (objs @ [obj]) items)"

definition Designer_deserialize :: "Designer \<Rightarrow> item list \<Rightarrow> Designer \<times> error option" where
  "Designer_deserialize self items =
     (let self1 = self\<lparr>selected_object_index := -1\<rparr>;
          self2 = self1\<lparr>objects := []\<rparr>;
          (objs, raised) = deserialize_loop (objects self2) items
      in (self2\<lparr>objects := objs\<rparr>, raised))"

text \<open>\<^verbatim>\<open>Designer.serialize\<close>, the list \<^verbatim>\<open>save\<close> writes.\<close>

definition Designer_serialize :: "Designer \<Rightarrow> item list" where
  "Designer_serialize self = map serialize (objects self)"

text \<open>
  \<^verbatim>\<open>Designer.open\<close>: \<open>None\<close> stands for an empty file name or a path that does not
  exist (the message is shown and nothing changes), \<open>Some items\<close> for the list of
  records read from the file. The status bar that shows the message is outside the
  model, and so is an exception it may raise on a narrow screen; the controller's state
  is the same with or without it.
\<close>

definition Designer_open :: "Designer \<Rightarrow> item list option \<Rightarrow> Designer \<times> error option" where
  "Designer_open self file =
     (case file of None \<Rightarrow> (self, None) | Some items \<Rightarrow> Designer_deserialize self items)"

text \<open>
  The commands of the key bindings. A move or a resize carries its one-cell delta,
  \<open>SelectOrEdit\<close> the text an edit session returns if one takes place, \<open>Open\<close> what
  the file holds.
\<close>

datatype command =
    CursorMove int int
  | CursorMoveResize int int
  | SwitchObject bool
  | Unselect
  | SelectOrEdit string
  | Toggle
  | ToggleSticky
  | Save
  | Open "item list option"
  | AddBox
  | AddArrow
  | AddLine
  | Delete

fun run_command :: "Designer \<Rightarrow> command \<Rightarrow> Designer \<times> error option" where
  "run_command self (CursorMove dx dy) = (on_cursor_move self dx dy, None)"
| "run_command self (CursorMoveResize dx dy) = (on_cursor_move_resize self dx dy, None)"
| "run_command self (SwitchObject reverse) = (on_switch_object self reverse, None)"
| "run_command self Unselect = (unselect_cur_object self, None)"
| "run_command self (SelectOrEdit edited) = (select_or_edit_object_under_cursor self edited, None)"
| "run_command self Toggle = (toggle_object self, None)"
| "run_command self ToggleSticky = (toggle_sticky_mode self, None)"
| "run_command self Save = (self, None)"
| "run_command self (Open file) = Designer_open self file"
| "run_command self AddBox = (add_box self, None)"
| "run_command self AddArrow = (add_arrow self, None)"
| "run_command self AddLine = (add_line self, None)"
| "run_command self Delete = (delete_cur_object self, None)"

text \<open>
  The controller states the event loop can pass through: the initial one, and the
  state after each command run in such a state without an exception (an exception
  other than \<^verbatim>\<open>KeyboardInterrupt\<close> ends the loop).
\<close>

inductive reachable :: "Designer \<Rightarrow> bool" where
  reachable_init: "reachable (Designer_init cv)"
| reachable_step: "reachable self \<Longrightarrow> run_command self cmd = (self', None) \<Longrightarrow> reachable self'"

text \<open>The selection invariant: no selection (\<open>-1\<close>) or an index of the collection.\<close>

definition selection_valid :: "Designer \<Rightarrow> bool" where
  "selection_valid self =
     (-1 \<le> selected_object_index self \<and>
      selected_object_index self < int (length (objects self)))"

text \<open>A sequence of commands, each run in the state the one before it left.\<close>

definition run_commands :: "Designer \<Rightarrow> command list \<Rightarrow> Designer" where
  "run_commands self cmds = fold (\<lambda>cmd s. fst (run_command s cmd)) cmds self"

text \<open>The one command that can raise: loading a file.\<close>

definition is_open :: "command \<Rightarrow> bool" where
  "is_open cmd = (case cmd of Open contents \<Rightarrow> True | _ \<Rightarrow> False)"


section \<open>Concrete inputs\<close>

text \<open>
  The inputs at which the theorems below are instantiated and the code is evaluated:
  a window of ten columns and ten rows with \<open>#\<close> in every cell, three shapes, a
  controller holding a box and a line, and two records that do not decode.
\<close>

definition hash_canvas :: Canvas where
  "hash_canvas = \<lparr> max_x = 10, max_y = 10, cells = (\<lambda>p. Chr CHR ''#'') \<rparr>"

definition right_arrow :: diagram_object where
  "right_arrow = \<lparr> position = Point 0 0, size' = Size 5 0, klass = Line HORIZONTAL True \<rparr>"

definition label_box :: diagram_object where
  "label_box = \<lparr> position = Point 2 2, size' = Size 14 2, klass = Box ''Hi'' True \<rparr>"

definition touching_line :: diagram_object where
  "touching_line = \<lparr> position = Point 17 3, size' = Size 6 3, klass = Line HORIZONTAL False \<rparr>"

definition box_and_line :: Designer where
  "box_and_line =
     \<lparr> objects = [label_box, touching_line], selected_object_index = 0, cursor = Point 0 0,
       cursor_mode = MOVE, sticky_mode = True, canvas = hash_canvas \<rparr>"

text \<open>
  A box resized to the left of and above its anchor: it covers the columns 7 to 10 and
  the rows 8 to 10. The line starts on the box's lower edge.
\<close>

definition flipped_box :: diagram_object where
  "flipped_box = \<lparr> position = Point 10 10, size' = Size (- 3) (- 2), klass = Box [] True \<rparr>"

definition inner_line :: diagram_object where
  "inner_line = \<lparr> position = Point 8 9, size' = Size 6 3, klass = Line HORIZONTAL True \<rparr>"

definition flipped_box_and_line :: Designer where
  "flipped_box_and_line =
     \<lparr> objects = [flipped_box, inner_line], selected_object_index = 0, cursor = Point 0 0,
       cursor_mode = MOVE, sticky_mode = True, canvas = hash_canvas \<rparr>"

text \<open>
  The same rectangle as a box anchored at its upper left corner, with the same line.
\<close>

definition upright_box :: diagram_object where
  "upright_box = \<lparr> position = Point 7 8, size' = Size 3 2, klass = Box [] True \<rparr>"

definition upright_box_and_line :: Designer where
  "upright_box_and_line =
     \<lparr> objects = [upright_box, inner_line], selected_object_index = 0, cursor = Point 0 0,
       cursor_mode = MOVE, sticky_mode = True, canvas = hash_canvas \<rparr>"

text \<open>A small box with negative size components, inside the window.\<close>

definition small_flipped_box :: diagram_object where
  "small_flipped_box = \<lparr> position = Point 3 3, size' = Size (- 2) (- 2), klass = Box [] True \<rparr>"

text \<open>Two lines, the second starting where the first ends; the first is selected.\<close>

definition two_lines :: Designer where
  "two_lines =
     \<lparr> objects = [\<lparr> position = Point 0 0, size' = Size 6 3, klass = Line HORIZONTAL True \<rparr>,
                  \<lparr> position = Point 6 3, size' = Size 6 3, klass = Line HORIZONTAL False \<rparr>],
       selected_object_index = 0, cursor = Point 0 0,
       cursor_mode = MOVE, sticky_mode = True, canvas = hash_canvas \<rparr>"

text \<open>A record of an unknown type, and a box record without its \<^verbatim>\<open>text\<close>.\<close>

definition circle_item :: item where
  "circle_item =
     \<lparr> item_type = Some ''Circle'',
       item_position = Some (asdict_Point (Point 0 0)), item_size = Some (asdict_Size (Size 1 1)),
       item_text = None, item_show_border = None, item_orientation = None, item_is_arrow = None \<rparr>"

definition textless_box_item :: item where
  "textless_box_item =
     \<lparr> item_type = Some ''Box'',
       item_position = Some (asdict_Point (Point 0 0)), item_size = Some (asdict_Size (Size 1 1)),
       item_text = None, item_show_border = Some True,
       item_orientation = None, item_is_arrow = None \<rparr>"

text \<open>
  Key strokes that lead from the initial state to the states above. The first
  sequence adds a box, moves it to \<open>(10, 10)\<close>, resizes it past its anchor on both axes,
  adds an arrow and selects the box again; the second one moves the free cursor to
  \<open>(3, 3)\<close>, adds a box there and resizes it past its anchor.
\<close>

definition flip_and_connect :: "command list" where
  "flip_and_connect =
     [AddBox] @ replicate 10 (CursorMove 1 0) @ replicate 10 (CursorMove 0 1) @
     replicate 17 (CursorMoveResize (- 1) 0) @ replicate 4 (CursorMoveResize 0 (- 1)) @
     [AddArrow, SwitchObject True]"

definition place_and_flip :: "command list" where
  "place_and_flip =
     replicate 3 (CursorMove 1 0) @ replicate 3 (CursorMove 0 1) @ [AddBox] @
     replicate 16 (CursorMoveResize (- 1) 0) @ replicate 4 (CursorMoveResize 0 (- 1))"


section \<open>Properties of the geometry\<close>

text \<open>
  C2, as amended. For every point \<open>P\<close> and size \<open>S\<close>: \<open>(P + S) - S = P\<close>, and
  \<open>(P + S) - P\<close> is the negated size \<open>Size(-S.w, -S.h)\<close>, because a point minus a point
  yields the right operand minus the left one; it is \<open>P - (P + S)\<close> that equals \<open>S\<close>.
\<close>

theorem point_size_arithmetic:
  "Point_sub_Size (Point_add P S) S = P \<and>
   Point_sub_Point (Point_add P S) P = Size (- size_w S) (- size_h S) \<and>
   Point_sub_Point P (Point_add P S) = S"
  by (cases P, cases S) (simp add: Point_sub_Size_def Point_add_def Point_sub_Point_def)

text \<open>
  The claim as the specification states it, \<open>(P + S) - P = S\<close>, fails at
  \<open>P = Point(0, 0)\<close>, \<open>S = Size(1, 0)\<close>: the code returns \<open>Size(-1, 0)\<close>.
\<close>

theorem point_sub_point_counterexample:
  "Point_sub_Point (Point_add (Point 0 0) (Size 1 0)) (Point 0 0) = Size (-1) 0 \<and>
   Point_sub_Point (Point_add (Point 0 0) (Size 1 0)) (Point 0 0) \<noteq> Size 1 0"
  by (simp add: Point_add_def Point_sub_Point_def)

text \<open>
  C3, as amended. \<open>p.is_within(c1, c2)\<close> is true exactly when \<open>c1\<close> is not beyond
  \<open>c2\<close> on either axis (\<open>c1.x \<le> c2.x\<close> and \<open>c1.y \<le> c2.y\<close>) and \<open>p\<close> lies between the
  smaller and the larger coordinate of the corners on both axes. With the corners in
  that order it is the order-independent test; with the corners reversed on an axis it
  is false.
\<close>

theorem is_within_ordered_corners:
  "is_within p c1 c2 =
     (point_x c1 \<le> point_x c2 \<and> point_y c1 \<le> point_y c2 \<and> is_within_spec p c1 c2)"
  by (auto simp add: is_within_def is_within_spec_def)

text \<open>
  The order-independent reading fails at \<open>p = (1, 1)\<close> with the corners \<open>(2, 2)\<close> and
  \<open>(0, 0)\<close>: the point lies in the rectangle, the code answers false, and answers true
  once the corners are swapped.
\<close>

theorem is_within_reversed_counterexample:
  "is_within_spec (Point 1 1) (Point 2 2) (Point 0 0) \<and>
   \<not> is_within (Point 1 1) (Point 2 2) (Point 0 0) \<and>
   is_within (Point 1 1) (Point 0 0) (Point 2 2)"
  by (simp add: is_within_def is_within_spec_def)

text \<open>
  C8. For every diagram object, whatever the signs of its size components, the
  normalized corners are ordered: \<open>normalized_top_left.x \<le> normalized_bottom_right.x\<close>
  and \<open>normalized_top_left.y \<le> normalized_bottom_right.y\<close>.
\<close>

theorem normalized_corners_ordered:
  "point_x (normalized_top_left obj) \<le> point_x (normalized_bottom_right obj) \<and>
   point_y (normalized_top_left obj) \<le> point_y (normalized_bottom_right obj)"
  by (simp add: normalized_top_left_def normalized_bottom_right_def normalized_position_def
      normalized_size_def Point_add_def Let_def)


section \<open>Properties of the persistence records\<close>

lemma and_then_Inl [simp]: "and_then (Inl e) f = Inl e"
  by (simp add: and_then_def)

lemma and_then_Inr [simp]: "and_then (Inr a) f = f a"
  by (simp add: and_then_def)

lemma getitem_Some [simp]: "getitem (Some a) k = Inr a"
  by (simp add: getitem_def)

lemma getitem_None [simp]: "getitem None k = Inl (KeyError k)"
  by (simp add: getitem_def)

text \<open>The base method reads back the position and the size \<^verbatim>\<open>serialize\<close> wrote.\<close>

lemma DiagramObject_deserialize_serialize:
  "DiagramObject_deserialize target (serialize obj) =
     Inr (target\<lparr>position := position obj, size' := size' obj\<rparr>)"
  by (cases "klass obj")
    (simp_all add: DiagramObject_deserialize_def serialize_def DiagramObject_serialize_def
      asdict_Point_def asdict_Size_def)

lemma deserialize_serialize:
  assumes "type_name (klass target) = type_name (klass obj)"
  shows "deserialize target (serialize obj) = Inr obj"
proof (cases "klass obj")
  case (Box t b)
  with assms obtain t0 b0 where "klass target = Box t0 b0"
    by (cases "klass target") (simp_all add: type_name_def)
  with Box show ?thesis
    by (simp add: deserialize_def DiagramObject_deserialize_serialize)
      (simp add: serialize_def DiagramObject_serialize_def)
next
  case (Line ori a)
  with assms obtain o0 a0 where "klass target = Line o0 a0"
    by (cases "klass target") (simp_all add: type_name_def)
  with Line show ?thesis
    by (simp add: deserialize_def DiagramObject_deserialize_serialize)
      (simp add: serialize_def DiagramObject_serialize_def)
next
  case DiagramObject
  with assms have "klass target = DiagramObject"
    by (cases "klass target") (simp_all add: type_name_def)
  with DiagramObject show ?thesis
    by (simp add: deserialize_def DiagramObject_deserialize_serialize)
qed

lemma item_type_serialize: "item_type (serialize obj) = Some (type_name (klass obj))"
  by (cases "klass obj") (simp_all add: serialize_def DiagramObject_serialize_def)

lemma new_object_serialize: "new_object (serialize obj) = Inr obj"
  by (cases "klass obj")
    (simp_all add: new_object_def item_type_serialize type_name_def deserialize_serialize
      new_Box_def new_Line_def new_DiagramObject_def)

text \<open>
  C7. For every shape, whatever its position, size and the fields of its variant:
  deserializing the record \<^verbatim>\<open>serialize\<close> produces into any object \<open>fresh\<close> of the same
  class yields the original shape, field for field; so does the loop body of the loader,
  which builds the fresh object from the record's type name.
\<close>

theorem serialize_deserialize_roundtrip:
  "(type_name (klass fresh) = type_name (klass obj) \<longrightarrow>
      deserialize fresh (serialize obj) = Inr obj) \<and>
   new_object (serialize obj) = Inr obj"
  by (simp add: deserialize_serialize new_object_serialize)

theorem serialize_deserialize_roundtrip_witness:
  "deserialize new_Box (serialize label_box) = Inr label_box \<and>
   new_object (serialize label_box) = Inr label_box"
  using serialize_deserialize_roundtrip [of new_Box label_box]
  by (simp add: new_Box_def label_box_def type_name_def)

text \<open>The loop appends what it decodes to what it has, record by record.\<close>

lemma deserialize_loop_prefix:
  "map new_object pre = map Inr objs \<Longrightarrow>
   deserialize_loop acc (pre @ rest) = deserialize_loop (acc @ objs) rest"
proof (induction pre arbitrary: acc objs)
  case Nil
  then show ?case by simp
next
  case (Cons it pre)
  then obtain obj objs' where objs: "objs = obj # objs'" by (cases objs) auto
  with Cons.prems have "new_object it = Inr obj" "map new_object pre = map Inr objs'"
    by simp_all
  with Cons.IH [of objs' "acc @ [obj]"] objs show ?case by simp
qed

lemma Designer_deserialize_fails:
  assumes "map new_object pre = map Inr objs" "new_object bad = Inl e"
  shows "Designer_deserialize self (pre @ bad # rest) =
           (self\<lparr>selected_object_index := -1, objects := objs\<rparr>, Some e)"
  using assms deserialize_loop_prefix [of pre objs "[]" "bad # rest"]
  by (simp add: Designer_deserialize_def)

lemma Designer_deserialize_succeeds:
  assumes "map new_object items = map Inr objs"
  shows "Designer_deserialize self items =
           (self\<lparr>selected_object_index := -1, objects := objs\<rparr>, None)"
  using assms deserialize_loop_prefix [of items objs "[]" "[]"]
  by (simp add: Designer_deserialize_def)

lemma new_object_circle: "new_object circle_item = Inl (KeyError ''Circle'')"
  by (simp add: new_object_def circle_item_def other_globals_def)

lemma new_object_textless: "new_object textless_box_item = Inl (KeyError ''text'')"
  by (simp add: new_object_def textless_box_item_def deserialize_def new_Box_def
      DiagramObject_deserialize_def asdict_Point_def asdict_Size_def)

text \<open>
  C1, as amended. Loading is not transactional. When the records \<open>pre\<close> decode to the
  shapes \<open>objs\<close> and the next record \<open>bad\<close> raises \<open>e\<close> (an unknown type or a missing
  field), the load ends with \<open>e\<close>, the selection reset to none and the collection
  holding exactly \<open>objs\<close>, the shapes decoded before the failing record: the pre-load
  collection is gone, and the records after \<open>bad\<close> are not read. When every record
  decodes, the collection is replaced by the decoded shapes and the selection is none.
  Nothing else of the controller changes in either case.
\<close>

theorem load_keeps_decoded_prefix:
  "(map new_object pre = map Inr objs \<and> new_object bad = Inl e \<longrightarrow>
      Designer_deserialize self (pre @ bad # rest) =
        (self\<lparr>selected_object_index := -1, objects := objs\<rparr>, Some e)) \<and>
   (map new_object items = map Inr decoded \<longrightarrow>
      Designer_deserialize self items =
        (self\<lparr>selected_object_index := -1, objects := decoded\<rparr>, None))"
  by (simp add: Designer_deserialize_fails Designer_deserialize_succeeds)

theorem load_keeps_decoded_prefix_witness:
  "Designer_deserialize box_and_line
     ([serialize touching_line] @ textless_box_item # [serialize label_box]) =
     (box_and_line\<lparr>selected_object_index := -1, objects := [touching_line]\<rparr>,
      Some (KeyError ''text'')) \<and>
   Designer_deserialize box_and_line [serialize touching_line, serialize label_box] =
     (box_and_line\<lparr>selected_object_index := -1, objects := [touching_line, label_box]\<rparr>,
      None)"
  using load_keeps_decoded_prefix [where pre = "[serialize touching_line]"
      and objs = "[touching_line]" and bad = textless_box_item and e = "KeyError ''text''"
      and self = box_and_line and rest = "[serialize label_box]"
      and items = "[serialize touching_line, serialize label_box]"
      and decoded = "[touching_line, label_box]"]
  by (simp add: new_object_serialize new_object_textless)

text \<open>
  The claim as the specification states it fails for a controller that holds a box and
  a line, with the box selected, and a file of one record of type \<open>Circle\<close>: the load
  raises, and the controller is left with an empty collection and no selection.
\<close>

theorem load_not_transactional_counterexample:
  "new_object circle_item = Inl (KeyError ''Circle'') \<and>
   Designer_deserialize box_and_line [circle_item] =
     (box_and_line\<lparr>selected_object_index := -1, objects := []\<rparr>, Some (KeyError ''Circle'')) \<and>
   objects (fst (Designer_deserialize box_and_line [circle_item])) \<noteq> objects box_and_line \<and>
   selected_object_index (fst (Designer_deserialize box_and_line [circle_item])) \<noteq>
     selected_object_index box_and_line"
  by (simp add: new_object_circle Designer_deserialize_def box_and_line_def)


section \<open>Properties of the controller\<close>

lemma length_update_each [simp]: "length (update_each f idxs objs) = length objs"
  unfolding update_each_def by (induction idxs arbitrary: objs) simp_all

lemma update_each_nth:
  "distinct idxs \<Longrightarrow> j < length objs \<Longrightarrow>
   update_each f idxs objs ! j = (if j \<in> set idxs then f (objs ! j) else objs ! j)"
  unfolding update_each_def
proof (induction idxs arbitrary: objs)
  case Nil
  then show ?case by simp
next
  case (Cons i idxs)
  then show ?case by (cases "i = j") simp_all
qed

lemma fold_connected:
  "fold (\<lambda>i (s, e). if A i then (s @ [i], e) else if B i then (s, e @ [i]) else (s, e)) xs (s0, e0) =
     (s0 @ filter A xs, e0 @ filter (\<lambda>i. \<not> A i \<and> B i) xs)"
  by (induction xs arbitrary: s0 e0) simp_all

lemma get_connected_lines_box:
  assumes "selected_object self = Some box" "\<not> is_Line (klass box)"
  shows "get_connected_lines self =
     (filter (\<lambda>i. is_within (top_left (objects self ! i))
                    (Point_sub_Size (top_left box) (Size 1 1))
                    (Point_add (bottom_right box) (Size 1 1))) (find_lines self),
      filter (\<lambda>i. \<not> is_within (top_left (objects self ! i))
                    (Point_sub_Size (top_left box) (Size 1 1))
                    (Point_add (bottom_right box) (Size 1 1)) \<and>
                  is_within (bottom_right (objects self ! i))
                    (Point_sub_Size (top_left box) (Size 1 1))
                    (Point_add (bottom_right box) (Size 1 1))) (find_lines self))"
  using assms by (simp add: get_connected_lines_def Let_def fold_connected)

lemma get_connected_lines_line:
  assumes "selected_object self = Some obj" "is_Line (klass obj)"
  shows "get_connected_lines self = ([], [])"
  using assms by (simp add: get_connected_lines_def)

lemma distinct_find_lines [simp]: "distinct (find_lines self)"
  by (simp add: find_lines_def)

lemma set_find_lines:
  "set (find_lines self) = {i. i < length (objects self) \<and> is_Line (klass (objects self ! i))}"
  by (auto simp add: find_lines_def)

lemma selected_object_SomeD:
  "selected_object self = Some obj \<Longrightarrow>
   0 \<le> selected_object_index self \<and> nat (selected_object_index self) < length (objects self) \<and>
   obj = objects self ! nat (selected_object_index self)"
  by (auto simp add: selected_object_def split: if_splits)

lemma sticky_line_move:
  assumes sel: "selected_object self = Some obj" and line: "is_Line (klass obj)"
    and sticky: "sticky_mode self"
  shows "on_cursor_move self dx dy =
     self\<lparr>objects := (objects self)[nat (selected_object_index self) := move_position dx dy obj]\<rparr>"
  using assms by (simp add: on_cursor_move_def get_connected_lines_line update_each_def getmaxxy_def)

lemma sticky_box_move_start:
  assumes sel: "selected_object self = Some box" and box: "\<not> is_Line (klass box)"
    and sticky: "sticky_mode self"
    and i: "i < length (objects self)" and line: "is_Line (klass (objects self ! i))"
    and conn: "is_within (top_left (objects self ! i))
                 (Point_sub_Size (top_left box) (Size 1 1))
                 (Point_add (bottom_right box) (Size 1 1))"
  shows "objects (on_cursor_move self dx dy) ! i = move_start dx dy (objects self ! i)"
proof -
  let ?k = "nat (selected_object_index self)"
  from selected_object_SomeD [OF sel]
  have k: "?k < length (objects self)" and boxk: "box = objects self ! ?k" by simp_all
  from box boxk line have ik: "i \<noteq> ?k" by auto
  let ?objs1 = "(objects self)[?k := move_position dx dy box]"
  obtain st en where ce: "get_connected_lines self = (st, en)" by force
  from ce get_connected_lines_box [OF sel box]
  have st: "st = filter (\<lambda>i. is_within (top_left (objects self ! i))
                    (Point_sub_Size (top_left box) (Size 1 1))
                    (Point_add (bottom_right box) (Size 1 1))) (find_lines self)"
    and en: "en = filter (\<lambda>i. \<not> is_within (top_left (objects self ! i))
                    (Point_sub_Size (top_left box) (Size 1 1))
                    (Point_add (bottom_right box) (Size 1 1)) \<and>
                  is_within (bottom_right (objects self ! i))
                    (Point_sub_Size (top_left box) (Size 1 1))
                    (Point_add (bottom_right box) (Size 1 1))) (find_lines self)"
    by simp_all
  have ist: "i \<in> set st" using i line conn by (simp add: st set_find_lines)
  have ien: "i \<notin> set en" using conn by (simp add: en)
  have dst: "distinct st" and den: "distinct en" by (simp_all add: st en)
  have res: "objects (on_cursor_move self dx dy) =
      update_each (move_end dx dy) en (update_each (move_start dx dy) st ?objs1)"
    using sel sticky ce by (simp add: on_cursor_move_def getmaxxy_def)
  have "update_each (move_end dx dy) en (update_each (move_start dx dy) st ?objs1) ! i =
      update_each (move_start dx dy) st ?objs1 ! i"
    using den ien i by (simp add: update_each_nth)
  also have "\<dots> = move_start dx dy (?objs1 ! i)"
    using dst ist i by (simp add: update_each_nth)
  also have "\<dots> = move_start dx dy (objects self ! i)"
    using ik by simp
  finally show ?thesis by (simp add: res)
qed

text \<open>
  For a box with non-negative size components, the rectangle the code tests against is
  the normalized bounding box padded by one cell on all sides.
\<close>

lemma padded_rectangle_nonnegative:
  assumes "0 \<le> size_w (size' box)" and "0 \<le> size_h (size' box)"
  shows "is_within p (Point_sub_Size (top_left box) (Size 1 1))
           (Point_add (bottom_right box) (Size 1 1)) =
         is_within_spec p (Point_sub_Size (normalized_top_left box) (Size 1 1))
           (Point_add (normalized_bottom_right box) (Size 1 1))"
  using assms
  by (auto simp add: is_within_def is_within_spec_def top_left_def bottom_right_def
      normalized_top_left_def normalized_bottom_right_def normalized_position_def
      normalized_size_def Point_add_def Point_sub_Size_def Let_def)

lemma on_cursor_move_selection:
  "selected_object_index (on_cursor_move self dx dy) = selected_object_index self \<and>
   length (objects (on_cursor_move self dx dy)) = length (objects self)"
  by (simp add: on_cursor_move_def Let_def split: option.splits prod.splits)

lemma on_cursor_move_resize_selection:
  "selected_object_index (on_cursor_move_resize self dx dy) = selected_object_index self \<and>
   length (objects (on_cursor_move_resize self dx dy)) = length (objects self)"
  by (simp add: on_cursor_move_resize_def split: option.splits)

lemma toggle_object_selection:
  "selected_object_index (toggle_object self) = selected_object_index self \<and>
   length (objects (toggle_object self)) = length (objects self)"
  by (simp add: toggle_object_def split: option.splits)

lemma on_switch_object_valid:
  "selection_valid self \<Longrightarrow> selection_valid (on_switch_object self reverse)"
  by (auto simp add: selection_valid_def on_switch_object_def Let_def)

lemma append_and_select_valid: "selection_valid (append_and_select self obj)"
  by (simp add: selection_valid_def append_and_select_def Let_def)

lemma delete_cur_object_valid:
  "selection_valid self \<Longrightarrow> selection_valid (delete_cur_object self)"
  by (auto simp add: selection_valid_def delete_cur_object_def)

lemma select_loop_valid:
  "\<forall>i \<in> set idxs. i < length (objects s) \<Longrightarrow> selection_valid s \<Longrightarrow>
   selection_valid
     (fold (\<lambda>i s. if is_within (cursor s) (top_left (objects s ! i)) (bottom_right (objects s ! i))
                  then s\<lparr>selected_object_index := int i\<rparr> else s) idxs s)"
proof (induction idxs arbitrary: s)
  case Nil
  then show ?case by simp
next
  case (Cons i idxs)
  then show ?case by (simp add: selection_valid_def)
qed

lemma select_or_edit_valid:
  "selection_valid self \<Longrightarrow> selection_valid (select_or_edit_object_under_cursor self edited)"
proof (cases "selected_object self")
  case None
  assume "selection_valid self"
  with None show ?thesis
    by (simp add: select_or_edit_object_under_cursor_def select_loop_valid)
next
  case (Some obj)
  assume "selection_valid self"
  with Some show ?thesis
    by (simp add: select_or_edit_object_under_cursor_def selection_valid_def split: klass.splits)
qed

lemma Designer_deserialize_valid: "selection_valid (fst (Designer_deserialize self items))"
  by (simp add: Designer_deserialize_def selection_valid_def Let_def split: prod.splits)

lemma run_command_valid:
  "selection_valid self \<Longrightarrow> selection_valid (fst (run_command self cmd))"
proof (cases cmd)
  case (CursorMove dx dy)
  assume "selection_valid self"
  with CursorMove on_cursor_move_selection [of self dx dy] show ?thesis
    by (simp add: selection_valid_def)
next
  case (CursorMoveResize dx dy)
  assume "selection_valid self"
  with CursorMoveResize on_cursor_move_resize_selection [of self dx dy] show ?thesis
    by (simp add: selection_valid_def)
next
  case Toggle
  assume "selection_valid self"
  with Toggle toggle_object_selection [of self] show ?thesis
    by (simp add: selection_valid_def)
next
  case (Open contents)
  assume "selection_valid self"
  with Open show ?thesis
    by (cases contents) (simp_all add: Designer_open_def Designer_deserialize_valid)
next
  case Unselect
  then show ?thesis by (simp add: unselect_cur_object_def selection_valid_def)
next
  case ToggleSticky
  assume "selection_valid self"
  with ToggleSticky show ?thesis by (simp add: toggle_sticky_mode_def selection_valid_def)
qed (simp_all add: on_switch_object_valid select_or_edit_valid append_and_select_valid
      delete_cur_object_valid add_box_def add_arrow_def add_line_def)

lemma reachable_valid: "reachable self \<Longrightarrow> selection_valid self"
proof (induction rule: reachable.induct)
  case (reachable_init cv)
  show ?case by (simp add: Designer_init_def selection_valid_def)
next
  case (reachable_step self cmd self')
  from run_command_valid [OF reachable_step.IH, of cmd] reachable_step.hyps(2)
  show ?case by simp
qed

text \<open>
  C9. Every controller command (a move, a resize, cycling the selection forward or
  backward, unselect, select-or-edit under the cursor, toggle, toggle sticky mode, save,
  load, add box, add arrow, add line, delete) preserves the invariant
  \<open>-1 \<le> selected_object_index < len(objects)\<close>, also when a load ends in an
  exception; and the invariant holds in every controller state the event loop reaches
  from the initial state.
\<close>

theorem selection_index_invariant:
  "(selection_valid self \<longrightarrow> selection_valid (fst (run_command self cmd))) \<and>
   (reachable self \<longrightarrow> selection_valid self)"
  by (simp add: run_command_valid reachable_valid)

text \<open>
  The invariant at a controller with its first object selected, after deleting that
  object, and at the initial state.
\<close>

theorem selection_index_invariant_witness:
  "selection_valid box_and_line \<and> selection_valid (fst (run_command box_and_line Delete)) \<and>
   reachable (Designer_init hash_canvas) \<and> selection_valid (Designer_init hash_canvas)"
  using selection_index_invariant [of box_and_line Delete]
    selection_index_invariant [of "Designer_init hash_canvas" Delete]
  by (simp add: selection_valid_def box_and_line_def reachable_init)

lemma selected_two_lines:
  "selected_object two_lines = Some \<lparr> position = Point 0 0, size' = Size 6 3, klass = Line HORIZONTAL True \<rparr>"
  by (simp add: selected_object_def two_lines_def)

text \<open>
  C10. When the selected object is a line and sticky mode is on, a move by \<open>(dx, dy)\<close>
  changes nothing of the controller but the position of that line, which is shifted by
  \<open>(dx, dy)\<close>: its size is unchanged, and every other object of the collection is
  unchanged, wherever its ends lie.
\<close>

theorem sticky_line_move_only_moves_the_line:
  assumes "selected_object self = Some obj" and "is_Line (klass obj)" and "sticky_mode self"
  shows "on_cursor_move self dx dy =
           self\<lparr>objects := (objects self)[nat (selected_object_index self) :=
                    obj\<lparr>position := Point_add (position obj) (Size dx dy)\<rparr>]\<rparr> \<and>
         size' (objects (on_cursor_move self dx dy) ! nat (selected_object_index self)) = size' obj \<and>
         (j \<noteq> nat (selected_object_index self) \<longrightarrow>
            objects (on_cursor_move self dx dy) ! j = objects self ! j)"
  using assms selected_object_SomeD [OF assms(1)]
  by (simp add: sticky_line_move move_position_def Point_add_def)

text \<open>
  Two lines, the second starting at the end of the first: moving the first one down
  leaves the second where it is.
\<close>

theorem sticky_line_move_only_moves_the_line_witness:
  "on_cursor_move two_lines 0 1 =
     two_lines\<lparr>objects :=
       [\<lparr> position = Point 0 1, size' = Size 6 3, klass = Line HORIZONTAL True \<rparr>,
        \<lparr> position = Point 6 3, size' = Size 6 3, klass = Line HORIZONTAL False \<rparr>]\<rparr>"
  using sticky_line_move_only_moves_the_line [OF selected_two_lines, of 0 1 1]
  by (simp add: two_lines_def Point_add_def)

lemma selected_box_and_line: "selected_object box_and_line = Some label_box"
  by (simp add: selected_object_def box_and_line_def)

text \<open>
  What the code does for a line it takes as connected. When a box is selected and sticky
  mode is on, a move by \<open>(dx, dy)\<close> shifts the position of every line whose start corner
  \<open>p\<close> passes the test of \<^verbatim>\<open>_get_connected_lines\<close>,
  \<open>box.top_left.x - 1 \<le> p.x \<le> box.bottom_right.x + 1\<close> and
  \<open>box.top_left.y - 1 \<le> p.y \<le> box.bottom_right.y + 1\<close>, by exactly \<open>(dx, dy)\<close>, leaves its
  end corner \<open>bottom_right\<close> unchanged, and subtracts \<open>(dx, dy)\<close> from its size. For a box
  with non-negative size components the test is the bounding box padded by one cell on
  all sides (lemma \<open>padded_rectangle_nonnegative\<close>).
\<close>

lemma sticky_box_move_drags_line_start:
  assumes "selected_object self = Some box" and "is_Box (klass box)" and "sticky_mode self"
    and "i < length (objects self)" and "is_Line (klass (objects self ! i))"
    and "is_within (top_left (objects self ! i))
           (Point_sub_Size (top_left box) (Size 1 1))
           (Point_add (bottom_right box) (Size 1 1))"
  shows "position (objects (on_cursor_move self dx dy) ! i) =
           Point_add (position (objects self ! i)) (Size dx dy) \<and>
         bottom_right (objects (on_cursor_move self dx dy) ! i) = bottom_right (objects self ! i) \<and>
         size' (objects (on_cursor_move self dx dy) ! i) =
           Size (size_w (size' (objects self ! i)) - dx) (size_h (size' (objects self ! i)) - dy) \<and>
         klass (objects (on_cursor_move self dx dy) ! i) = klass (objects self ! i)"
proof -
  from assms(2) have "\<not> is_Line (klass box)" by (cases "klass box") simp_all
  from sticky_box_move_start [OF assms(1) this assms(3-6), of dx dy]
  show ?thesis by (simp add: move_start_def Point_add_def bottom_right_def)
qed

text \<open>
  A box at \<open>(2, 2)\<close> of size \<open>(14, 2)\<close> and a line starting at \<open>(17, 3)\<close>, one cell to the
  right of the box: moving the box right moves the start to \<open>(18, 3)\<close> and leaves the end
  at \<open>(23, 6)\<close>.
\<close>

lemma sticky_box_move_drags_line_start_example:
  "position (objects (on_cursor_move box_and_line 1 0) ! 1) = Point 18 3 \<and>
   bottom_right (objects (on_cursor_move box_and_line 1 0) ! 1) = Point 23 6 \<and>
   bottom_right touching_line = Point 23 6 \<and>
   size' (objects (on_cursor_move box_and_line 1 0) ! 1) = Size 5 3"
  using sticky_box_move_drags_line_start [OF selected_box_and_line, of 1 1 0]
  by (simp add: box_and_line_def label_box_def touching_line_def is_within_def top_left_def
      bottom_right_def Point_add_def Point_sub_Size_def)

text \<open>
  The test takes the box's anchor and far corner as they are. Once a size component of
  the box is below \<open>-2\<close>, the upper bound of the test lies below its lower bound on that
  axis and no point passes: nothing is connected to such a box.
\<close>

lemma flipped_box_connects_nothing:
  assumes "size_w (size' box) < - 2 \<or> size_h (size' box) < - 2"
  shows "\<not> is_within p (Point_sub_Size (top_left box) (Size 1 1))
             (Point_add (bottom_right box) (Size 1 1))"
  using assms
  by (auto simp add: is_within_def top_left_def bottom_right_def Point_add_def
      Point_sub_Size_def)

text \<open>
  C4 fails on the code for a box with negative size components. The box anchored at
  \<open>(10, 10)\<close> with size \<open>(-3, -2)\<close> is selected in sticky mode; it covers the columns 7 to
  10 and the rows 8 to 10. The line starting at \<open>(8, 9)\<close> starts inside that rectangle,
  hence inside the box's bounding box padded by one cell on all sides, and inside the
  rectangle spanned by \<open>top_left - (1, 1)\<close> and \<open>bottom_right + (1, 1)\<close> whatever the order
  of the corners. Moving the box by \<open>(1, 0)\<close> leaves the line's position at \<open>(8, 9)\<close>,
  where the claim has it shifted to \<open>(9, 9)\<close>. The box that covers the same cells from
  the anchor \<open>(7, 8)\<close> with size \<open>(3, 2)\<close> does drag the line to \<open>(9, 9)\<close> and keeps its end
  at \<open>(14, 12)\<close>.
\<close>

theorem sticky_flipped_box_leaves_line_behind:
  "selected_object flipped_box_and_line = Some flipped_box \<and> is_Box (klass flipped_box) \<and>
   sticky_mode flipped_box_and_line \<and>
   objects flipped_box_and_line ! 1 = inner_line \<and> is_Line (klass inner_line) \<and>
   normalized_top_left flipped_box = Point 7 8 \<and>
   normalized_bottom_right flipped_box = Point 10 10 \<and>
   is_within (top_left inner_line) (normalized_top_left flipped_box)
     (normalized_bottom_right flipped_box) \<and>
   is_within (top_left inner_line)
     (Point_sub_Size (normalized_top_left flipped_box) (Size 1 1))
     (Point_add (normalized_bottom_right flipped_box) (Size 1 1)) \<and>
   is_within_spec (top_left inner_line)
     (Point_sub_Size (top_left flipped_box) (Size 1 1))
     (Point_add (bottom_right flipped_box) (Size 1 1)) \<and>
   position (objects (on_cursor_move flipped_box_and_line 1 0) ! 1) = Point 8 9 \<and>
   position (objects (on_cursor_move flipped_box_and_line 1 0) ! 1) \<noteq>
     Point_add (position inner_line) (Size 1 0) \<and>
   normalized_top_left upright_box = Point 7 8 \<and>
   normalized_bottom_right upright_box = Point 10 10 \<and>
   position (objects (on_cursor_move upright_box_and_line 1 0) ! 1) = Point 9 9 \<and>
   bottom_right (objects (on_cursor_move upright_box_and_line 1 0) ! 1) = Point 14 12"
  by (simp add: flipped_box_and_line_def flipped_box_def inner_line_def selected_object_def
      upright_box_and_line_def upright_box_def move_start_def move_end_def
      normalized_top_left_def normalized_bottom_right_def normalized_position_def
      normalized_size_def is_within_def is_within_spec_def top_left_def bottom_right_def
      Point_add_def Point_sub_Size_def on_cursor_move_def get_connected_lines_def
      find_lines_def update_each_def getmaxxy_def move_position_def Let_def)

text \<open>
  The controller with the resized box and the arrow is a state the event loop reaches:
  the arrow is where \<^verbatim>\<open>_add_arrow\<close> puts it next to the selected box.
\<close>

lemma run_command_no_exception: "\<not> is_open cmd \<Longrightarrow> snd (run_command self cmd) = None"
  by (cases cmd) (simp_all add: is_open_def)

lemma reachable_run_commands:
  "reachable self \<Longrightarrow> list_all (\<lambda>cmd. \<not> is_open cmd) cmds \<Longrightarrow>
   reachable (run_commands self cmds)"
proof (induction cmds arbitrary: self)
  case Nil
  then show ?case by (simp add: run_commands_def)
next
  case (Cons cmd cmds)
  from Cons.prems(2) have "snd (run_command self cmd) = None"
    by (simp add: run_command_no_exception)
  then have "run_command self cmd = (fst (run_command self cmd), None)"
    by (metis prod.collapse)
  with Cons.prems(1) have "reachable (fst (run_command self cmd))"
    by (rule reachable_step)
  with Cons.IH [of "fst (run_command self cmd)"] Cons.prems(2) show ?case
    by (simp add: run_commands_def)
qed

lemma run_flip_and_connect:
  "run_commands (Designer_init hash_canvas) flip_and_connect = flipped_box_and_line"
  by (simp add: run_commands_def flip_and_connect_def numeral_eq_Suc Designer_init_def
      flipped_box_and_line_def flipped_box_def inner_line_def
      add_box_def add_arrow_def append_and_select_def get_new_obj_position_def
      selected_object_def on_cursor_move_def on_cursor_move_resize_def get_connected_lines_def
      find_lines_def update_each_def getmaxxy_def move_position_def move_end_def
      on_switch_object_def top_right_def Point_add_def HORIZONTAL_def Let_def)

lemma reachable_flipped_box_and_line: "reachable flipped_box_and_line"
proof -
  have "reachable (run_commands (Designer_init hash_canvas) flip_and_connect)"
    by (rule reachable_run_commands [OF reachable_init])
      (simp add: flip_and_connect_def is_open_def list_all_iff)
  then show ?thesis by (simp add: run_flip_and_connect)
qed

text \<open>So is a controller whose selected object is the small box resized past its anchor.\<close>

lemma run_place_and_flip:
  "selected_object (run_commands (Designer_init hash_canvas) place_and_flip) =
     Some small_flipped_box"
  by (simp add: run_commands_def place_and_flip_def numeral_eq_Suc Designer_init_def
      small_flipped_box_def hash_canvas_def
      add_box_def append_and_select_def get_new_obj_position_def
      selected_object_def on_cursor_move_def on_cursor_move_resize_def get_connected_lines_def
      find_lines_def update_each_def getmaxxy_def move_position_def move_end_def Let_def)

lemma reachable_small_flipped_box:
  "reachable (run_commands (Designer_init hash_canvas) place_and_flip)"
  by (rule reachable_run_commands [OF reachable_init])
    (simp add: place_and_flip_def is_open_def list_all_iff)


section \<open>Properties of the drawing\<close>

lemma in_window_put_ch [simp]: "in_window (put_ch cv q c) p = in_window cv p"
  by (simp add: put_ch_def in_window_def)

lemma cells_put_ch:
  "cells (put_ch cv q c) p = (if p = q \<and> in_window cv q then c else cells cv p)"
  by (simp add: put_ch_def)

lemma point_eq_iff: "(p = Point x y) = (point_x p = x \<and> point_y p = y)"
  by (cases p) auto

text \<open>
  What \<^verbatim>\<open>fill\<close> leaves on the canvas: the character in every cell of the window that
  lies between the two corners, whatever their order, and the old content elsewhere.
\<close>

lemma fold_row:
  "in_window (fold (\<lambda>x cv. put_ch cv (Point x y) c) xs cv) p = in_window cv p \<and>
   cells (fold (\<lambda>x cv. put_ch cv (Point x y) c) xs cv) p =
     (if point_y p = y \<and> point_x p \<in> set xs \<and> in_window cv p then c else cells cv p)"
proof (induction xs arbitrary: cv)
  case Nil
  show ?case by simp
next
  case (Cons x xs)
  show ?case by (auto simp add: Cons.IH cells_put_ch point_eq_iff)
qed

lemma fold_rows:
  "in_window (fold (\<lambda>y cv. fold (\<lambda>x cv. put_ch cv (Point x y) c) xs cv) ys cv) p = in_window cv p \<and>
   cells (fold (\<lambda>y cv. fold (\<lambda>x cv. put_ch cv (Point x y) c) xs cv) ys cv) p =
     (if point_y p \<in> set ys \<and> point_x p \<in> set xs \<and> in_window cv p then c else cells cv p)"
proof (induction ys arbitrary: cv)
  case Nil
  show ?case by simp
next
  case (Cons y ys)
  show ?case by (auto simp add: Cons.IH fold_row)
qed

lemma in_window_fill [simp]: "in_window (fill cv start end c) p = in_window cv p"
  by (simp add: fill_def fold_rows Let_def split: prod.splits)

lemma cells_fill:
  "cells (fill cv start end c) p =
     (if is_within_spec p start end \<and> in_window cv p then c else cells cv p)"
  by (auto simp add: fill_def fold_rows Let_def is_within_spec_def split: prod.splits)

text \<open>
  The truncated degree on the four axis directions.
\<close>

lemma py_int_degree_down: "0 < h \<Longrightarrow> py_int (degree_of (Size 0 h)) = 0"
  by (simp add: degree_of_def atan2_def py_int_def)

lemma py_int_degree_up: "h < 0 \<Longrightarrow> py_int (degree_of (Size 0 h)) = 180"
  by (simp add: degree_of_def atan2_def py_int_def)

lemma py_int_degree_right: "0 < w \<Longrightarrow> py_int (degree_of (Size w 0)) = 90"
  by (simp add: degree_of_def atan2_def py_int_def)

lemma py_int_degree_left: "w < 0 \<Longrightarrow> py_int (degree_of (Size w 0)) = - 90"
  by (simp add: degree_of_def atan2_def py_int_def)

lemma degree_to_ch_axis:
  assumes "w = 0 \<and> h \<noteq> 0 \<or> h = 0 \<and> w \<noteq> 0"
  shows "degree_to_ch (py_int (degree_of (Size w h))) =
     Some (if 0 < h then ARROW_DOWN else if h < 0 then ARROW_UP
           else if 0 < w then ARROW_RIGHT else ARROW_LEFT)"
proof -
  consider "w = 0" "0 < h" | "w = 0" "h < 0" | "h = 0" "0 < w" | "h = 0" "w < 0"
    using assms by linarith
  then show ?thesis
  proof cases
    case 1
    then show ?thesis by (simp add: py_int_degree_down degree_to_ch_def)
  next
    case 2
    then show ?thesis by (simp add: py_int_degree_up degree_to_ch_def)
  next
    case 3
    then show ?thesis by (simp add: py_int_degree_right degree_to_ch_def)
  next
    case 4
    then show ?thesis by (simp add: py_int_degree_left degree_to_ch_def)
  qed
qed

lemma draw_line_arrow:
  assumes "is_arrow (klass self)" and "start \<noteq> end"
    and "point_x start = point_x end \<or> point_y start = point_y end"
  shows "draw_line self cv start end =
     Inr (put_ch (fill cv start end
                    (Glyph (if point_x start = point_x end then V_LINE else H_LINE)))
            end
            (Glyph (if point_y start < point_y end then ARROW_DOWN
                    else if point_y end < point_y start then ARROW_UP
                    else if point_x start < point_x end then ARROW_RIGHT
                    else ARROW_LEFT)))"
proof -
  let ?w = "point_x end - point_x start" and ?h = "point_y end - point_y start"
  have axis: "?w = 0 \<and> ?h \<noteq> 0 \<or> ?h = 0 \<and> ?w \<noteq> 0"
    using assms(2,3) by (cases start; cases "end") auto
  from degree_to_ch_axis [OF axis] assms show ?thesis
    by (auto simp add: draw_line_def Point_sub_Point_def Let_def)
qed

text \<open>
  C5, as amended. For every arrow line and every leg from \<open>start\<close> to \<open>end\<close> that is
  axis-aligned and not of length zero, \<^verbatim>\<open>_draw_line\<close> raises nothing, strokes the leg and
  overwrites its end with the glyph of the table under the atan2 angle of the vector
  from the leg's start to its end (\<open>end - start\<close>, which is what \<^verbatim>\<open>start - end\<close> computes
  in the code): 0, 90, 180 and -90 degrees, that is \<open>ARROW_DOWN\<close>, \<open>ARROW_RIGHT\<close>,
  \<open>ARROW_UP\<close> and \<open>ARROW_LEFT\<close>, for a leg that runs down, right, up and left.
\<close>

theorem arrowhead_follows_leg_direction:
  assumes "is_Line (klass self)" and "is_arrow (klass self)" and "start \<noteq> end"
    and "point_x start = point_x end \<or> point_y start = point_y end"
  shows "\<exists>g. degree_to_ch (py_int (degree_of
                 (Size (point_x end - point_x start) (point_y end - point_y start)))) = Some g \<and>
             g = (if point_y start < point_y end then ARROW_DOWN
                  else if point_y end < point_y start then ARROW_UP
                  else if point_x start < point_x end then ARROW_RIGHT
                  else ARROW_LEFT) \<and>
             draw_line self cv start end =
               Inr (put_ch (fill cv start end
                              (Glyph (if point_x start = point_x end then V_LINE else H_LINE)))
                      end (Glyph g))"
proof -
  let ?w = "point_x end - point_x start" and ?h = "point_y end - point_y start"
  have axis: "?w = 0 \<and> ?h \<noteq> 0 \<or> ?h = 0 \<and> ?w \<noteq> 0"
    using assms(3,4) by (cases start; cases "end") auto
  from degree_to_ch_axis [OF axis] draw_line_arrow [OF assms(2-4), of cv]
  show ?thesis by auto
qed

lemma in_window_hash_canvas:
  "in_window hash_canvas p =
     (0 \<le> point_x p \<and> point_x p < 10 \<and> 0 \<le> point_y p \<and> point_y p < 10)"
  by (simp add: in_window_def hash_canvas_def)

lemma cells_hash_canvas: "cells hash_canvas p = Chr CHR ''#''"
  by (simp add: hash_canvas_def)

lemma draw_right_arrow:
  "draw right_arrow hash_canvas =
     Inr (put_ch (fill hash_canvas (Point 0 0) (Point 5 0) (Glyph H_LINE)) (Point 5 0)
            (Glyph ARROW_RIGHT))"
  by (simp add: draw_def Line_draw_def draw_horizontal_def right_arrow_def HORIZONTAL_def
        top_left_def top_right_def bottom_right_def Point_add_def draw_line_arrow)

text \<open>
  The leg from \<open>(0, 0)\<close> to \<open>(5, 0)\<close> of an arrow gets the right-pointing glyph at
  \<open>(5, 0)\<close>.
\<close>

theorem arrowhead_follows_leg_direction_witness:
  "draw_line right_arrow hash_canvas (Point 0 0) (Point 5 0) =
     Inr (put_ch (fill hash_canvas (Point 0 0) (Point 5 0) (Glyph H_LINE)) (Point 5 0)
            (Glyph ARROW_RIGHT)) \<and>
   degree_to_ch (py_int (degree_of (Size 5 0))) = Some ARROW_RIGHT"
  using arrowhead_follows_leg_direction [of right_arrow "Point 0 0" "Point 5 0" hash_canvas]
  by (simp add: right_arrow_def)

text \<open>
  The claim as the specification states it takes the vector from the leg's end back to
  its start. For the arrow from \<open>(0, 0)\<close> with size \<open>(5, 0)\<close> that vector is \<open>(-5, 0)\<close>, its
  angle is -90 degrees and its glyph is \<open>ARROW_LEFT\<close>; drawing the line puts
  \<open>ARROW_RIGHT\<close> at \<open>(5, 0)\<close>.
\<close>

theorem arrowhead_end_to_start_counterexample:
  "arrowhead_spec (Point 0 0) (Point 5 0) = Some ARROW_LEFT \<and>
   (case draw right_arrow hash_canvas of Inl e \<Rightarrow> None | Inr cv \<Rightarrow> Some (cells cv (Point 5 0))) =
     Some (Glyph ARROW_RIGHT)"
  by (simp add: draw_right_arrow cells_put_ch in_window_hash_canvas arrowhead_spec_def
      py_int_degree_left degree_to_ch_def)

lemma draw_small_flipped_box:
  "draw small_flipped_box hash_canvas =
     Inr (fill
       (put_ch (put_ch (put_ch (put_ch
          (fill (fill (fill (fill hash_canvas (Point 3 3) (Point 1 3) (Glyph H_LINE))
             (Point 3 1) (Point 1 1) (Glyph H_LINE))
             (Point 1 3) (Point 1 1) (Glyph V_LINE))
             (Point 3 3) (Point 3 1) (Glyph V_LINE))
          (Point 1 1) (Glyph TL_CORNER)) (Point 3 1) (Glyph TR_CORNER))
          (Point 1 3) (Glyph BL_CORNER)) (Point 3 3) (Glyph BR_CORNER))
       (Point 4 4) (Point 0 0) (Chr CHR '' ''))"
  by (simp add: draw_def Box_draw_def small_flipped_box_def top_left_def top_right_def
      bottom_left_def bottom_right_def normalized_top_left_def normalized_top_right_def
      normalized_bottom_left_def normalized_bottom_right_def normalized_position_def
      normalized_size_def Point_add_def Point_sub_Size_def slice_to_def Let_def)

text \<open>
  C6 fails on the code for a box with negative size components. The box anchored at
  \<open>(3, 3)\<close> with size \<open>(-2, -2)\<close> and a border has the normalized corners \<open>(1, 1)\<close> and
  \<open>(3, 3)\<close>; its only interior cell is \<open>(2, 2)\<close>. Drawing it on a window full of \<open>#\<close>
  leaves blanks at the four corners and on the edges of the box, and at \<open>(0, 0)\<close> and
  \<open>(4, 4)\<close> outside of it: the blank fill runs from \<open>top_left + (1, 1) = (4, 4)\<close> to
  \<open>bottom_right - (1, 1) = (0, 0)\<close> and wipes the border just drawn.
\<close>

theorem flipped_box_border_is_cleared:
  "normalized_top_left small_flipped_box = Point 1 1 \<and>
   normalized_bottom_right small_flipped_box = Point 3 3 \<and>
   (case draw small_flipped_box hash_canvas of
      Inl e \<Rightarrow> None
    | Inr cv \<Rightarrow>
        Some (map (cells cv)
          [Point 1 1, Point 3 1, Point 1 3, Point 3 3, Point 2 1, Point 2 2,
           Point 0 0, Point 4 4, Point 5 5])) =
     Some [Chr CHR '' '', Chr CHR '' '', Chr CHR '' '', Chr CHR '' '', Chr CHR '' '',
           Chr CHR '' '', Chr CHR '' '', Chr CHR '' '', Chr CHR ''#'']"
  by (simp add: draw_small_flipped_box cells_fill cells_put_ch in_window_hash_canvas
      cells_hash_canvas is_within_spec_def)
    (simp add: small_flipped_box_def normalized_top_left_def normalized_bottom_right_def
      normalized_position_def normalized_size_def Point_add_def)

text \<open>
  On a whole line: \<^verbatim>\<open>Line.draw\<close> of an arrow whose size is not \<open>(0, 0)\<close> raises
  nothing, and the cell at the line's end corner, when it lies in the window, holds the
  arrowhead of the final leg's direction.
\<close>

lemma Line_draw_arrowhead:
  assumes "klass self = Line ori True" and "size' self \<noteq> Size 0 0"
  shows "\<exists>cv'. Line_draw self cv = Inr cv' \<and>
           cells cv' (bottom_right self) =
             (if in_window cv (bottom_right self) then
                Glyph (if ori = HORIZONTAL
                       then (if 0 < size_h (size' self) then ARROW_DOWN
                             else if size_h (size' self) < 0 then ARROW_UP
                             else if 0 < size_w (size' self) then ARROW_RIGHT else ARROW_LEFT)
                       else (if 0 < size_w (size' self) then ARROW_RIGHT
                             else if size_w (size' self) < 0 then ARROW_LEFT
                             else if 0 < size_h (size' self) then ARROW_DOWN else ARROW_UP))
              else cells cv (bottom_right self))"
proof -
  obtain x y where pos: "position self = Point x y" by (cases "position self")
  obtain w h where sz: "size' self = Size w h" by (cases "size' self")
  from assms(2) sz have nz: "w \<noteq> 0 \<or> h \<noteq> 0" by simp
  have arrow: "is_arrow (klass self)" using assms(1) by simp
  show ?thesis
  proof (cases "ori = HORIZONTAL")
    case True
    show ?thesis
    proof (cases "h = 0")
      case True
      with nz have "w \<noteq> 0" by simp
      with True \<open>ori = HORIZONTAL\<close> pos sz assms(1) show ?thesis
        by (simp add: Line_draw_def draw_horizontal_def top_left_def top_right_def
            bottom_right_def Point_add_def draw_line_arrow [OF arrow] cells_put_ch cells_fill)
    next
      case False
      with \<open>ori = HORIZONTAL\<close> pos sz assms(1) show ?thesis
        by (simp add: Line_draw_def draw_horizontal_def top_left_def top_right_def
            bottom_right_def Point_add_def draw_line_arrow [OF arrow] cells_put_ch cells_fill)
    qed
  next
    case False
    show ?thesis
    proof (cases "w = 0")
      case True
      with nz have "h \<noteq> 0" by simp
      with True \<open>ori \<noteq> HORIZONTAL\<close> pos sz assms(1) show ?thesis
        by (simp add: Line_draw_def draw_vertical_def top_left_def bottom_left_def
            bottom_right_def Point_add_def draw_line_arrow [OF arrow] cells_put_ch cells_fill)
    next
      case False
      with \<open>ori \<noteq> HORIZONTAL\<close> pos sz assms(1) show ?thesis
        by (simp add: Line_draw_def draw_vertical_def top_left_def bottom_left_def
            bottom_right_def Point_add_def draw_line_arrow [OF arrow] cells_put_ch cells_fill)
    qed
  qed
qed

text \<open>
  The rectangle \<^verbatim>\<open>Box.draw\<close> fills with blanks is the interior of the normalized
  rectangle when both size components are at least 2; when both are zero or negative it
  is the normalized rectangle padded by one cell on all sides.
\<close>

lemma cleared_rectangle_interior:
  assumes "2 \<le> size_w (size' self)" and "2 \<le> size_h (size' self)"
  shows "is_within_spec p (Point_add (top_left self) (Size 1 1))
           (Point_sub_Size (bottom_right self) (Size 1 1)) =
         is_within p (Point_add (normalized_top_left self) (Size 1 1))
           (Point_sub_Size (normalized_bottom_right self) (Size 1 1))"
  using assms
  by (auto simp add: is_within_def is_within_spec_def top_left_def bottom_right_def
      normalized_top_left_def normalized_bottom_right_def normalized_position_def
      normalized_size_def Point_add_def Point_sub_Size_def Let_def)

lemma cleared_rectangle_flipped:
  assumes "size_w (size' self) \<le> 0" and "size_h (size' self) \<le> 0"
  shows "is_within_spec p (Point_add (top_left self) (Size 1 1))
           (Point_sub_Size (bottom_right self) (Size 1 1)) =
         is_within p (Point_sub_Size (normalized_top_left self) (Size 1 1))
           (Point_add (normalized_bottom_right self) (Size 1 1))"
  using assms
  by (auto simp add: is_within_def is_within_spec_def top_left_def bottom_right_def
      normalized_top_left_def normalized_bottom_right_def normalized_position_def
      normalized_size_def Point_add_def Point_sub_Size_def Let_def)

end
